theory Spec2Isabelle
  imports Main
begin

section \<open>Strings\<close>

text \<open>
  A JavaScript string is modelled as a \<^typ>\<open>string\<close>, one \<^typ>\<open>char\<close> per code unit.
  The model covers ASCII text: the white space of the regular expression class
  \<^verbatim>\<open>\s\<close> and of \<^verbatim>\<open>trim\<close> is tab, line feed, vertical tab, form feed, carriage return
  and space; \<^verbatim>\<open>toUpperCase\<close> and \<^verbatim>\<open>toLowerCase\<close> move the 26 letters. A char above
  0x7F is kept as a symbol without case that is not white space.
\<close>

definition is_space :: "char \<Rightarrow> bool" where
  "is_space c = (c \<in> set [CHR 0x09, CHR 0x0A, CHR 0x0B, CHR 0x0C, CHR 0x0D, CHR '' ''])"

text \<open>The line terminators, which \<^verbatim>\<open>.\<close> does not match.\<close>

definition is_line_terminator :: "char \<Rightarrow> bool" where
  "is_line_terminator c = (c \<in> set [CHR 0x0A, CHR 0x0D])"

definition toUpperCase_char :: "char \<Rightarrow> char" where
  "toUpperCase_char c =
     (let n = (of_char c :: nat) in if 97 \<le> n \<and> n \<le> 122 then char_of (n - 32) else c)"

definition toLowerCase_char :: "char \<Rightarrow> char" where
  "toLowerCase_char c =
     (let n = (of_char c :: nat) in if 65 \<le> n \<and> n \<le> 90 then char_of (n + 32) else c)"

definition toUpperCase :: "string \<Rightarrow> string" where
  "toUpperCase s = map toUpperCase_char s"

definition toLowerCase :: "string \<Rightarrow> string" where
  "toLowerCase s = map toLowerCase_char s"

text \<open>\<^verbatim>\<open>s.trim()\<close>: white space removed at both ends.\<close>

definition trim :: "string \<Rightarrow> string" where
  "trim s = rev (dropWhile is_space (rev (dropWhile is_space s)))"

section \<open>WordService.cleanDefinition\<close>

text \<open>
  \<^verbatim>\<open>.replace(/\([^)]*\)/g, '')\<close>. At an opening parenthesis the expression matches up to
  the first closing parenthesis after it, when there is one; the match is removed and the
  search goes on behind it. An opening parenthesis with no closing one behind it stays.
\<close>

function strip_parens :: "string \<Rightarrow> string" where
  "strip_parens [] = []"
| "strip_parens (c # cs) =
     (if c = CHR ''('' \<and> CHR '')'' \<in> set cs
      then strip_parens (tl (dropWhile (\<lambda>x. x \<noteq> CHR '')'') cs))
      else c # strip_parens cs)"
  by pat_completeness auto
termination
proof (relation "measure length")
  fix c :: char and cs :: string
  have "length (tl (dropWhile (\<lambda>x. x \<noteq> CHR '')'') cs)) \<le> length cs"
    using length_dropWhile_le [of "\<lambda>x. x \<noteq> CHR '')''" cs] by simp
  then show "(tl (dropWhile (\<lambda>x. x \<noteq> CHR '')'') cs), c # cs) \<in> measure length"
    by simp
qed simp_all

text \<open>\<^verbatim>\<open>.replace(/\s+/g, ' ')\<close>: every maximal run of white space becomes one space.\<close>

function collapse_ws :: "string \<Rightarrow> string" where
  "collapse_ws [] = []"
| "collapse_ws (c # cs) =
     (if is_space c then CHR '' '' # collapse_ws (dropWhile is_space cs)
      else c # collapse_ws cs)"
  by pat_completeness auto
termination
proof (relation "measure length")
  fix c :: char and cs :: string
  show "(dropWhile is_space cs, c # cs) \<in> measure length"
    using length_dropWhile_le [of is_space cs] by simp
qed simp_all

text \<open>
  \<^verbatim>\<open>.replace(/^./, str => str.toUpperCase())\<close>: the first code unit, unless the string
  is empty or starts with a line terminator.
\<close>

definition capitalize_first :: "string \<Rightarrow> string" where
  "capitalize_first s =
     (case s of [] \<Rightarrow> []
      | c # cs \<Rightarrow> if is_line_terminator c then s else toUpperCase_char c # cs)"

text \<open>
  \<^verbatim>\<open>.replace(/\.?$/, '.')\<close>: the leftmost match is the last character when that is a
  period, and the empty string at the end otherwise.
\<close>

definition ensure_period :: "string \<Rightarrow> string" where
  "ensure_period s =
     (if s \<noteq> [] \<and> last s = CHR ''.'' then butlast s @ ''.'' else s @ ''.'')"

definition cleanDefinition :: "string \<Rightarrow> string" where
  "cleanDefinition definition =
     trim (ensure_period (capitalize_first (collapse_ws (strip_parens definition))))"

section \<open>Words, corpus entries and random draws\<close>

text \<open>The \<^verbatim>\<open>Word\<close> type of both services; its fields carry the prefix \<open>w_\<close>.\<close>

record Word =
  w_id :: nat
  w_word :: string
  w_definition :: string
  w_difficulty :: string
  w_category :: string

text \<open>
  An entry of \<^verbatim>\<open>WORD_DATABASE\<close>. The source reads the fields \<^verbatim>\<open>word\<close>,
  \<^verbatim>\<open>definition\<close>, \<^verbatim>\<open>difficulty\<close>, \<^verbatim>\<open>category\<close> (which may be absent) and
  \<^verbatim>\<open>frequency_rank\<close>; the field \<^verbatim>\<open>length\<close> of the built-in list is never read.
\<close>

record entry =
  entry_word :: string
  entry_definition :: string
  frequency_rank :: nat
  entry_difficulty :: string
  entry_category :: "string option"

text \<open>
  \<^verbatim>\<open>Math.floor(Math.random() * n)\<close> is an index below \<open>n\<close>. The draw is a parameter
  \<open>r\<close> of the model; \<open>r mod n\<close> takes every index below \<open>n\<close> and no other value.
  \<^verbatim>\<open>Date.now()\<close> is the parameter \<open>now\<close>.
\<close>

definition randomIndex :: "nat \<Rightarrow> nat \<Rightarrow> nat" where
  "randomIndex r n = r mod n"

section \<open>EnhancedWordService\<close>

definition getFallbackWordList :: "entry list" where
  "getFallbackWordList =
    [\<lparr>entry_word = ''HOUSE'', entry_definition = ''A building for human habitation.'',
      frequency_rank = 150, entry_difficulty = ''common'', entry_category = Some ''general''\<rparr>,
     \<lparr>entry_word = ''WATER'',
      entry_definition = ''A transparent liquid that forms rivers, lakes, oceans, and rain.'',
      frequency_rank = 95, entry_difficulty = ''common'', entry_category = Some ''general''\<rparr>,
     \<lparr>entry_word = ''SCHOOL'', entry_definition = ''An institution for educating children.'',
      frequency_rank = 360, entry_difficulty = ''common'', entry_category = Some ''general''\<rparr>]"

text \<open>\<^verbatim>\<open>WORDS_BY_DIFFICULTY\<close>, computed from the loaded database \<open>db\<close>.\<close>

definition WORDS_BY_DIFFICULTY_easy :: "entry list \<Rightarrow> entry list" where
  "WORDS_BY_DIFFICULTY_easy db = take 200 (filter (\<lambda>w. entry_difficulty w = ''common'') db)"

definition WORDS_BY_DIFFICULTY_medium :: "entry list \<Rightarrow> entry list" where
  "WORDS_BY_DIFFICULTY_medium db = take 200 (filter (\<lambda>w. entry_difficulty w = ''moderate'') db)"

definition WORDS_BY_DIFFICULTY_hard :: "entry list \<Rightarrow> entry list" where
  "WORDS_BY_DIFFICULTY_hard db = take 200 (filter (\<lambda>w. entry_difficulty w = ''expert'') db)"

text \<open>The \<^verbatim>\<open>switch (difficulty)\<close> of both selection methods; any other string takes the
  default branch.\<close>

definition wordPool :: "entry list \<Rightarrow> string \<Rightarrow> entry list" where
  "wordPool db difficulty =
     (if difficulty = ''easy'' then WORDS_BY_DIFFICULTY_easy db
      else if difficulty = ''medium'' then WORDS_BY_DIFFICULTY_medium db
      else if difficulty = ''hard'' then WORDS_BY_DIFFICULTY_hard db
      else db)"

definition mapDifficulty :: "string \<Rightarrow> string" where
  "mapDifficulty dbDifficulty =
     (if dbDifficulty = ''common'' then ''easy''
      else if dbDifficulty = ''moderate'' then ''medium''
      else if dbDifficulty = ''expert'' then ''hard''
      else ''medium'')"

text \<open>The object literal that every selection method returns for the chosen entry;
  \<^verbatim>\<open>category || 'general'\<close> replaces an absent or empty category.\<close>

definition wordOfEntry :: "nat \<Rightarrow> entry \<Rightarrow> Word" where
  "wordOfEntry now e =
     \<lparr>w_id = now, w_word = entry_word e, w_definition = entry_definition e,
      w_difficulty = mapDifficulty (entry_difficulty e),
      w_category = (case entry_category e of None \<Rightarrow> ''general''
                    | Some c \<Rightarrow> if c = [] then ''general'' else c)\<rparr>"

text \<open>
  The state of the service is \<^verbatim>\<open>usedWords\<close>, a set of strings. Each method takes it and
  returns it updated next to its result. The two methods that call themselves are partial
  functions: \<open>None\<close> is a call that never returns, \<open>Some (result, usedWords)\<close> one
  that does.
\<close>

partial_function (option) getRandomWordWithDefinition_enhanced ::
  "entry list \<Rightarrow> nat \<Rightarrow> nat \<Rightarrow> string set \<Rightarrow> (Word option \<times> string set) option" where
  "getRandomWordWithDefinition_enhanced db r now usedWords =
     (let availableWords = filter (\<lambda>w. entry_word w \<notin> usedWords) db in
      if length availableWords = 0
      then getRandomWordWithDefinition_enhanced db r now {}
      else
        let randomWord = availableWords ! randomIndex r (length availableWords) in
        Some (Some (wordOfEntry now randomWord), insert (entry_word randomWord) usedWords))"

partial_function (option) getWordByDifficulty ::
  "entry list \<Rightarrow> string \<Rightarrow> nat \<Rightarrow> nat \<Rightarrow> string set \<Rightarrow> (Word option \<times> string set) option" where
  "getWordByDifficulty db difficulty r now usedWords =
     (let availableWords = filter (\<lambda>w. entry_word w \<notin> usedWords) (wordPool db difficulty) in
      if length availableWords = 0
      then getWordByDifficulty db difficulty r now
             (fold (\<lambda>w used. used - {entry_word w}) (wordPool db difficulty) usedWords)
      else
        let randomWord = availableWords ! randomIndex r (length availableWords) in
        Some (Some (wordOfEntry now randomWord), insert (entry_word randomWord) usedWords))"

definition getSmartWordSelection ::
  "entry list \<Rightarrow> string list \<Rightarrow> string \<Rightarrow> nat \<Rightarrow> nat \<Rightarrow> string set \<Rightarrow> Word option \<times> string set" where
  "getSmartWordSelection db seenWords difficulty r now usedWords =
     (let unseenWords =
            filter (\<lambda>w. toUpperCase (entry_word w) \<notin> set seenWords \<and> entry_word w \<notin> usedWords)
              (wordPool db difficulty) in
      if length unseenWords = 0
      then
        let availableWords = filter (\<lambda>w. entry_word w \<notin> {}) (wordPool db difficulty) in
        if length availableWords = 0 then (None, {})
        else
          let randomWord = availableWords ! randomIndex r (length availableWords) in
          (Some (wordOfEntry now randomWord), insert (entry_word randomWord) {})
      else
        let randomWord = unseenWords ! randomIndex r (length unseenWords) in
        (Some (wordOfEntry now randomWord), insert (entry_word randomWord) usedWords))"

section \<open>WordService\<close>

definition commonWords :: "string list" where
  "commonWords =
   [''THE'', ''AND'', ''FOR'', ''ARE'', ''BUT'', ''NOT'', ''YOU'', ''ALL'', ''CAN'', ''HER'',
    ''WAS'', ''ONE'', ''OUR'', ''HAD'', ''BY'', ''WORD'', ''WHAT'', ''SAID'', ''EACH'',
    ''WHICH'', ''DO'', ''HOW'', ''THEIR'', ''IF'', ''WILL'', ''UP'', ''OTHER'', ''ABOUT'',
    ''OUT'', ''MANY'', ''THEN'', ''THEM'', ''THESE'', ''SO'', ''SOME'', ''HER'', ''WOULD'',
    ''MAKE'', ''LIKE'', ''INTO'', ''HIM'', ''HAS'', ''TWO'', ''MORE'', ''GO'', ''NO'', ''WAY'',
    ''COULD'', ''MY'', ''THAN'', ''FIRST'', ''BEEN'', ''CALL'', ''WHO'', ''OIL'', ''ITS'',
    ''NOW'', ''FIND'', ''LONG'', ''DOWN'', ''DAY'', ''DID'', ''GET'', ''COME'', ''MADE'',
    ''MAY'', ''PART'']"

definition categorizeWordDifficulty :: "string \<Rightarrow> string" where
  "categorizeWordDifficulty word =
     (if toUpperCase word \<in> set commonWords \<or> length word \<le> 5 then ''easy''
      else if length word \<le> 8 then ''medium''
      else ''hard'')"

definition CURATED_WORDS :: "string list" where
  "CURATED_WORDS =
   [''HOUSE'', ''WATER'', ''LIGHT'', ''WORLD'', ''MUSIC'', ''PLANT'', ''SMILE'', ''DREAM'',
    ''PEACE'', ''TRUTH'', ''FAMILY'', ''FRIEND'', ''HAPPY'', ''LOVE'', ''TIME'', ''LIFE'',
    ''WORK'', ''SCHOOL'', ''BOOK'', ''STORY'', ''NATURE'', ''GARDEN'', ''FLOWER'', ''TREE'',
    ''CLOUD'', ''RAIN'', ''WIND'', ''FIRE'', ''EARTH'', ''SKY'', ''ADVENTURE'', ''BEAUTIFUL'',
    ''CREATIVE'', ''EDUCATION'', ''FANTASTIC'', ''GENEROUS'', ''HAPPINESS'', ''IMPORTANT'',
    ''KNOWLEDGE'', ''WONDERFUL'', ''MOUNTAIN'', ''SUNSHINE'', ''FRIENDSHIP'', ''BUTTERFLY'',
    ''JOURNEY'', ''EXPLORE'', ''DISCOVER'', ''FREEDOM'', ''COURAGE'', ''WISDOM'', ''MEMORY'',
    ''PASSION'', ''BALANCE'', ''HARMONY'', ''COMFORT'', ''ENERGY'', ''GROWTH'', ''HEALTH'',
    ''SPIRIT'', ''GENTLE'', ''MAGNIFICENT'', ''SPECTACULAR'', ''EXTRAORDINARY'',
    ''FASCINATING'', ''INCREDIBLE'', ''BRILLIANT'', ''OUTSTANDING'', ''REMARKABLE'',
    ''PHENOMENAL'', ''EXCEPTIONAL'', ''MYSTERIOUS'', ''ENCHANTING'', ''SOPHISTICATED'',
    ''ELABORATE'', ''INTRICATE'', ''COMPLEX'', ''PROFOUND'', ''SIGNIFICANT'', ''ULTIMATE'',
    ''ESSENTIAL'', ''FUNDAMENTAL'', ''COMPREHENSIVE'', ''EXTENSIVE'', ''INTENSIVE'',
    ''PROGRESSIVE'', ''SERENDIPITY'', ''EPHEMERAL'', ''WANDERLUST'', ''NOSTALGIA'',
    ''TRANQUIL'', ''LUMINOUS'', ''RESILIENCE'', ''QUINTESSENTIAL'', ''MELANCHOLY'',
    ''SYMPHONY'', ''SKYSCRAPER'', ''ELOQUENT'', ''INDIGENOUS'', ''UBIQUITOUS'',
    ''MAGNIFICENT'', ''CONTEMPLATION'', ''PERSEVERANCE'', ''EUPHEMISM'', ''PARADOX'',
    ''CATALYST'', ''PARADIGM'', ''PINNACLE'', ''TRAJECTORY'', ''MOMENTUM'', ''CATALYST'',
    ''BENCHMARK'', ''EQUILIBRIUM'', ''TRANSCENDENT'', ''CACOPHONY'', ''EUPHORIA'',
    ''LABYRINTH'', ''METAMORPHOSIS'', ''RENAISSANCE'', ''SOLITUDE'', ''ZENITH'', ''AMBIGUOUS'',
    ''BENEVOLENT'', ''CONSCIENTIOUS'', ''DILIGENT'', ''ECCENTRIC'', ''FLAMBOYANT'',
    ''GREGARIOUS'', ''KALEIDOSCOPE'', ''MIRAGE'', ''OASIS'', ''PRISM'', ''RIPPLE'',
    ''SHIMMER'', ''TWILIGHT'', ''VELVET'', ''WHISPER'', ''ZEPHYR'', ''BLOSSOM'', ''CASCADE'',
    ''DAZZLE'', ''EMBRACE'', ''FLUTTER'', ''GLIMMER'', ''PHOTOSYNTHESIS'', ''ECOSYSTEM'',
    ''BIODIVERSITY'', ''CONSTELLATION'', ''PRECIPITATION'', ''EVAPORATION'', ''CRYSTALLINE'',
    ''AURORA'', ''GRAVITATIONAL'', ''MOLECULAR'', ''ELECTROMAGNETIC'', ''REVOLUTIONARY'',
    ''ATMOSPHERIC'', ''GEOLOGICAL'', ''ASTRONOMICAL'', ''MICROSCOPIC'', ''MACROSCOPIC'',
    ''QUANTUM'', ''CHEMISTRY'', ''BIOLOGY'', ''PHYSICS'', ''MATHEMATICS'', ''GEOMETRY'',
    ''ALGEBRA'', ''CALCULUS'', ''NUCLEUS'', ''ELECTRON'', ''PROTON'', ''NEUTRON'',
    ''MOLECULE'', ''ATOM'', ''ELEMENT'', ''COMPOUND'', ''PHILOSOPHY'', ''PSYCHOLOGY'',
    ''ANTHROPOLOGY'', ''ARCHAEOLOGY'', ''ARCHITECTURE'', ''DEMOCRACY'', ''CAPITALISM'',
    ''SOCIALISM'', ''NATIONALISM'', ''GLOBALIZATION'', ''TECHNOLOGICAL'', ''INNOVATION'',
    ''LITERATURE'', ''LINGUISTICS'', ''SOCIOLOGY'', ''ECONOMICS'', ''POLITICS'', ''HISTORY'',
    ''GEOGRAPHY'', ''THEOLOGY'', ''METHODOLOGY'', ''EPISTEMOLOGY'', ''ONTOLOGY'',
    ''DIALECTIC'', ''SYNTHESIS'', ''ANALYSIS'', ''HYPOTHESIS'', ''THEORY'', ''CONCEPT'',
    ''PRINCIPLE'', ''DOCTRINE'', ''IDEOLOGY'', ''PARADIGM'', ''COMPASSIONATE'', ''EMPATHETIC'',
    ''OPTIMISTIC'', ''PESSIMISTIC'', ''CHARISMATIC'', ''INTROVERTED'', ''EXTROVERTED'',
    ''AMBITIOUS'', ''PERSISTENT'', ''SPONTANEOUS'', ''METHODICAL'', ''ANALYTICAL'',
    ''ENTHUSIASTIC'', ''PASSIONATE'', ''DETERMINED'', ''CONFIDENT'', ''HUMBLE'', ''GENEROUS'',
    ''PATIENT'', ''COURAGEOUS'', ''ADVENTUROUS'', ''CURIOUS'', ''CREATIVE'', ''INNOVATIVE'',
    ''INSPIRING'', ''MOTIVATING'', ''MASTERPIECE'', ''VIRTUOSO'', ''RENAISSANCE'', ''BAROQUE'',
    ''IMPRESSIONISM'', ''SURREALISM'', ''CONTEMPORARY'', ''AVANT-GARDE'', ''CLASSICAL'',
    ''ROMANTIC'', ''MINIMALIST'', ''EXPRESSIONISM'', ''SCULPTURE'', ''PAINTING'',
    ''LITERATURE'', ''POETRY'', ''MUSIC'', ''DANCE'', ''THEATER'', ''CINEMA'',
    ''ARCHITECTURE'', ''DESIGN'', ''FASHION'', ''PHOTOGRAPHY'', ''ILLUSTRATION'',
    ''CALLIGRAPHY'', ''ALGORITHM'', ''ARTIFICIAL'', ''INTELLIGENCE'', ''COMPUTER'',
    ''DIGITAL'', ''INTERNET'', ''NETWORK'', ''SOFTWARE'', ''HARDWARE'', ''PROGRAMMING'',
    ''DATABASE'', ''SECURITY'', ''ENCRYPTION'', ''BLOCKCHAIN'', ''VIRTUAL'', ''AUGMENTED'',
    ''REALITY'', ''SIMULATION'', ''AUTOMATION'', ''ROBOTICS'', ''MACHINE'', ''INTERFACE'',
    ''PLATFORM'', ''SYSTEM'', ''FRAMEWORK'', ''PROTOCOL'', ''ARCHITECTURE'',
    ''INFRASTRUCTURE'', ''CUISINE'', ''GOURMET'', ''DELICIOUS'', ''FLAVOR'', ''AROMA'',
    ''TEXTURE'', ''INGREDIENT'', ''RECIPE'', ''CULINARY'', ''CHEF'', ''KITCHEN'',
    ''RESTAURANT'', ''BANQUET'', ''FEAST'', ''APPETIZER'', ''DESSERT'', ''BEVERAGE'',
    ''COCKTAIL'', ''VINTAGE'', ''EXOTIC'', ''SPICE'', ''HERB'', ''SEASONING'', ''MARINADE'',
    ''DESTINATION'', ''VOYAGE'', ''EXPEDITION'', ''PILGRIMAGE'', ''EXCURSION'', ''SAFARI'',
    ''CRUISE'', ''CONTINENT'', ''ISLAND'', ''PENINSULA'', ''VALLEY'', ''PLATEAU'', ''DESERT'',
    ''FOREST'', ''JUNGLE'', ''METROPOLIS'', ''VILLAGE'', ''SUBURB'', ''DISTRICT'',
    ''NEIGHBORHOOD'', ''LANDMARK'', ''MONUMENT'', ''HERITAGE'', ''CULTURE'', ''TRADITION'',
    ''CUSTOMS'', ''FESTIVAL'', ''CELEBRATION'', ''CEREMONY'', ''ENTREPRENEUR'', ''INNOVATION'',
    ''INVESTMENT'', ''REVENUE'', ''PROFIT'', ''MARKET'', ''ECONOMY'', ''STRATEGY'',
    ''MANAGEMENT'', ''LEADERSHIP'', ''ORGANIZATION'', ''CORPORATION'', ''ENTERPRISE'',
    ''PRODUCTIVITY'', ''EFFICIENCY'', ''QUALITY'', ''EXCELLENCE'', ''PERFORMANCE'',
    ''ACHIEVEMENT'', ''COMPETITION'', ''COLLABORATION'', ''PARTNERSHIP'', ''NETWORKING'',
    ''NEGOTIATION'', ''CONTRACT'', ''WELLNESS'', ''VITALITY'', ''NUTRITION'', ''EXERCISE'',
    ''MEDITATION'', ''MINDFULNESS'', ''BALANCE'', ''STRENGTH'', ''FLEXIBILITY'', ''ENDURANCE'',
    ''IMMUNITY'', ''HEALING'', ''THERAPY'', ''RECOVERY'', ''PREVENTION'', ''DIAGNOSIS'',
    ''TREATMENT'', ''MEDICINE'', ''PHARMACY'', ''HOSPITAL'', ''CLINIC'', ''CHRONOLOGY'',
    ''DURATION'', ''MOMENT'', ''INSTANT'', ''ETERNITY'', ''TEMPORAL'', ''SEASONAL'',
    ''SPRING'', ''SUMMER'', ''AUTUMN'', ''WINTER'', ''DAWN'', ''DUSK'', ''MIDNIGHT'', ''NOON'',
    ''CENTURY'', ''DECADE'', ''MILLENNIUM'', ''ANNIVERSARY'', ''BIRTHDAY'', ''HOLIDAY'',
    ''WEEKEND'', ''LANGUAGE'', ''VOCABULARY'', ''GRAMMAR'', ''SYNTAX'', ''SEMANTICS'',
    ''PRONUNCIATION'', ''ACCENT'', ''DIALECT'', ''CONVERSATION'', ''DIALOGUE'', ''MONOLOGUE'',
    ''SPEECH'', ''PRESENTATION'', ''LECTURE'', ''DISCUSSION'', ''DEBATE'', ''ARGUMENT'',
    ''PERSUASION'', ''RHETORIC'', ''ELOQUENCE'', ''ARTICULATION'']"

definition DYNAMIC_WORD_POOLS :: "(string \<times> string list) list" where
  "DYNAMIC_WORD_POOLS =
    [(''animals'',
      [''ELEPHANT'', ''GIRAFFE'', ''PENGUIN'', ''DOLPHIN'', ''OCTOPUS'', ''KANGAROO'',
       ''CHAMELEON'', ''RHINOCEROS'']),
     (''colors'',
      [''CRIMSON'', ''EMERALD'', ''SAPPHIRE'', ''AMBER'', ''VIOLET'', ''TURQUOISE'',
       ''MAGENTA'', ''BURGUNDY'']),
     (''professions'',
      [''ARCHITECT'', ''ENGINEER'', ''SCIENTIST'', ''ARTIST'', ''MUSICIAN'', ''TEACHER'',
       ''DOCTOR'', ''LAWYER'']),
     (''countries'',
      [''AUSTRALIA'', ''CANADA'', ''BRAZIL'', ''GERMANY'', ''JAPAN'', ''ITALY'', ''SPAIN'',
       ''FRANCE'']),
     (''weather'',
      [''THUNDERSTORM'', ''HURRICANE'', ''BLIZZARD'', ''TORNADO'', ''RAINBOW'', ''LIGHTNING'',
       ''DRIZZLE'', ''HAIL'']),
     (''sports'',
      [''BASKETBALL'', ''FOOTBALL'', ''TENNIS'', ''SWIMMING'', ''CYCLING'', ''MARATHON'',
       ''GYMNASTICS'', ''VOLLEYBALL'']),
     (''instruments'',
      [''PIANO'', ''GUITAR'', ''VIOLIN'', ''TRUMPET'', ''SAXOPHONE'', ''DRUMS'', ''FLUTE'',
       ''CELLO'']),
     (''mythology'',
      [''PHOENIX'', ''DRAGON'', ''UNICORN'', ''CENTAUR'', ''GRIFFIN'', ''PEGASUS'', ''HYDRA'',
       ''CHIMERA''])]"

text \<open>
  What the dictionary service answers to one request: the request fails (the network, or
  a body that is not JSON), or a response arrives with its \<^verbatim>\<open>ok\<close> flag and its body (in this order).
  In the body a field that the source tests before reading it may be absent: the array
  itself (\<open>None\<close> for \<^verbatim>\<open>null\<close>), \<^verbatim>\<open>meanings\<close> and \<^verbatim>\<open>definitions\<close>. An element of
  \<open>definitions\<close> is the \<^verbatim>\<open>definition\<close> string of the object; \<^verbatim>\<open>example\<close> is not read.
\<close>

record meaning =
  partOfSpeech :: string
  definitions :: "string list option"

record DictionaryAPIResponse =
  api_word :: string
  meanings :: "meaning list option"

datatype fetch_result =
  FetchError
| Response bool "DictionaryAPIResponse list option"

text \<open>The \<^verbatim>\<open>for (const meaning of meanings)\<close> loop: the first meaning whose first
  definition, cleaned, is longer than 20 and shorter than 200 characters.\<close>

fun firstReadableDefinition :: "meaning list \<Rightarrow> string option" where
  "firstReadableDefinition [] = None"
| "firstReadableDefinition (m # ms) =
     (case definitions m of
        None \<Rightarrow> firstReadableDefinition ms
      | Some [] \<Rightarrow> firstReadableDefinition ms
      | Some (d # _) \<Rightarrow>
          (let cleanDefinition = cleanDefinition d in
           if length cleanDefinition > 20 \<and> length cleanDefinition < 200
           then Some cleanDefinition
           else firstReadableDefinition ms))"

text \<open>
  \<open>api\<close> is the dictionary service, asked for the lower-cased word. Every failure inside
  the \<^verbatim>\<open>try\<close> block is caught and gives \<^verbatim>\<open>null\<close>, here \<open>None\<close>.
\<close>

definition fetchDefinitionFromAPI :: "(string \<Rightarrow> fetch_result) \<Rightarrow> string \<Rightarrow> string option" where
  "fetchDefinitionFromAPI api word =
     (case api (toLowerCase word) of
        FetchError \<Rightarrow> None
      | Response ok data \<Rightarrow>
          if \<not> ok then None
          else (case data of
                  None \<Rightarrow> None
                | Some [] \<Rightarrow> None
                | Some (d0 # _) \<Rightarrow>
                    (case meanings d0 of
                       None \<Rightarrow> None
                     | Some ms \<Rightarrow> if length ms > 0 then firstReadableDefinition ms else None)))"

text \<open>The state of the service is \<^verbatim>\<open>usedWords\<close>; the fields \<^verbatim>\<open>dynamicWordsCache\<close> and
  \<^verbatim>\<open>lastDynamicFetch\<close> are never read or written.\<close>

definition getCuratedWord :: "nat \<Rightarrow> string set \<Rightarrow> string option" where
  "getCuratedWord r usedWords =
     (let availableWords = filter (\<lambda>word. word \<notin> usedWords) CURATED_WORDS in
      if length availableWords = 0 then None
      else Some (availableWords ! randomIndex r (length availableWords)))"

definition getDynamicWord :: "nat \<Rightarrow> string set \<Rightarrow> string option" where
  "getDynamicWord r usedWords =
     (let allDynamicWords = concat (map snd DYNAMIC_WORD_POOLS);
          availableDynamicWords = filter (\<lambda>word. word \<notin> usedWords) allDynamicWords in
      if length availableDynamicWords = 0 then None
      else Some (availableDynamicWords ! randomIndex r (length availableDynamicWords)))"

definition randomWords :: "string list" where
  "randomWords =
   [''ANCIENT'', ''BRIDGE'', ''CASTLE'', ''DOLPHIN'', ''ELEPHANT'', ''FOREST'', ''GALAXY'',
    ''HARBOR'', ''ISLAND'', ''JUNGLE'', ''KITCHEN'', ''LIBRARY'', ''MEADOW'', ''NATURE'',
    ''OCEAN'', ''PALACE'', ''QUEEN'', ''RIVER'', ''SUNSET'', ''TEMPLE'', ''UMBRELLA'',
    ''VILLAGE'', ''WINDOW'', ''YELLOW'', ''ZEBRA'', ''MARBLE'', ''CRYSTAL'', ''THUNDER'',
    ''BUTTERFLY'', ''MOUNTAIN'', ''DIAMOND'', ''SILVER'', ''GOLDEN'', ''PURPLE'', ''ORANGE'']"

definition getRandomDictionaryWord :: "nat \<Rightarrow> string set \<Rightarrow> string option \<times> string set" where
  "getRandomDictionaryWord r usedWords =
     (let availableRandomWords = filter (\<lambda>word. word \<notin> usedWords) randomWords in
      if length availableRandomWords = 0
      then (Some (randomWords ! randomIndex r (length randomWords)), {})
      else (Some (availableRandomWords ! randomIndex r (length availableRandomWords)), usedWords))"

definition fallbackWords :: "(string \<times> string) list" where
  "fallbackWords =
    [(''MAGNIFICENT'',
      ''Extremely beautiful, elaborate, or impressive; inspiring great admiration or awe.''),
     (''SERENDIPITY'',
      ''The occurrence and development of events by chance in a happy or beneficial way; a pleasant surprise.''),
     (''WANDERLUST'',
      ''A strong desire to travel and explore the world; an irresistible urge to wander and discover new places.'')]"

definition getFallbackWord :: "nat \<Rightarrow> nat \<Rightarrow> Word" where
  "getFallbackWord r now =
     (let randomFallback = fallbackWords ! randomIndex r (length fallbackWords) in
      \<lparr>w_id = now, w_word = fst randomFallback, w_definition = snd randomFallback,
       w_difficulty = categorizeWordDifficulty (fst randomFallback), w_category = ''general''\<rparr>)"

text \<open>JavaScript truthiness of a \<^verbatim>\<open>string | null\<close>: \<^verbatim>\<open>null\<close> and the empty string are
  falsy.\<close>

definition truthy :: "string option \<Rightarrow> bool" where
  "truthy v = (case v of None \<Rightarrow> False | Some s \<Rightarrow> s \<noteq> [])"

text \<open>
  The first half of \<^verbatim>\<open>getRandomWordWithDefinition\<close>, up to the choice of
  \<^verbatim>\<open>wordToTry\<close>: the curated list, then the dynamic pools, then the dictionary words.
  At most one of the three draws a random number, \<open>r\<close>.
\<close>

definition chooseWordToTry :: "nat \<Rightarrow> string set \<Rightarrow> string option \<times> string set" where
  "chooseWordToTry r usedWords =
     (let wordToTry = getCuratedWord r usedWords;
          wordToTry = (if \<not> truthy wordToTry then getDynamicWord r usedWords else wordToTry) in
      if \<not> truthy wordToTry then getRandomDictionaryWord r usedWords
      else (wordToTry, usedWords))"

text \<open>
  \<open>r1\<close> is the draw of the candidate, \<open>r2\<close> the draw of \<^verbatim>\<open>getFallbackWord\<close>. The tests
  \<^verbatim>\<open>if (wordToTry)\<close> and \<^verbatim>\<open>if (definition)\<close> fail on \<^verbatim>\<open>null\<close> and on the empty string.
\<close>

definition getRandomWordWithDefinition ::
  "(string \<Rightarrow> fetch_result) \<Rightarrow> nat \<Rightarrow> nat \<Rightarrow> nat \<Rightarrow> string set \<Rightarrow> Word option \<times> string set" where
  "getRandomWordWithDefinition api r1 r2 now usedWords0 =
     (let (wordToTry, usedWords) = chooseWordToTry r1 usedWords0 in
      case wordToTry of
        None \<Rightarrow> (Some (getFallbackWord r2 now), usedWords)
      | Some w \<Rightarrow>
          if w = [] then (Some (getFallbackWord r2 now), usedWords)
          else
            (case fetchDefinitionFromAPI api w of
               None \<Rightarrow> (Some (getFallbackWord r2 now), usedWords)
             | Some d \<Rightarrow>
                 if d = [] then (Some (getFallbackWord r2 now), usedWords)
                 else (Some \<lparr>w_id = now, w_word = toUpperCase w, w_definition = d,
                              w_difficulty = categorizeWordDifficulty w,
                              w_category = ''general''\<rparr>,
                       insert w usedWords)))"

section \<open>Properties and sample data\<close>

text \<open>A parenthesized aside: an opening parenthesis with a closing one somewhere behind it,
  which is what \<^verbatim>\<open>/\([^)]*\)/\<close> matches.\<close>

fun has_paren_aside :: "string \<Rightarrow> bool" where
  "has_paren_aside [] = False"
| "has_paren_aside (c # cs) = ((c = CHR ''('' \<and> CHR '')'' \<in> set cs) \<or> has_paren_aside cs)"

text \<open>Two white space characters next to each other.\<close>

fun has_space_run :: "string \<Rightarrow> bool" where
  "has_space_run (a # b # cs) = ((is_space a \<and> is_space b) \<or> has_space_run (b # cs))"
| "has_space_run cs = False"

definition starts_uppercase :: "string \<Rightarrow> bool" where
  "starts_uppercase s =
     (case s of [] \<Rightarrow> False | c # _ \<Rightarrow> 65 \<le> (of_char c :: nat) \<and> (of_char c :: nat) \<le> 90)"

text \<open>The number of periods at the end of a string.\<close>

definition trailing_periods :: "string \<Rightarrow> nat" where
  "trailing_periods s = length (takeWhile (\<lambda>c. c = CHR ''.'') (rev s))"

text \<open>A corpus of two words, one common and one expert.\<close>

definition sampleCorpus :: "entry list" where
  "sampleCorpus =
    [\<lparr>entry_word = ''CAT'', entry_definition = ''A small domesticated feline.'',
      frequency_rank = 1200, entry_difficulty = ''common'', entry_category = None\<rparr>,
     \<lparr>entry_word = ''ELEPHANT'', entry_definition = ''A very large grey mammal with a trunk.'',
      frequency_rank = 12000, entry_difficulty = ''expert'', entry_category = Some ''animals''\<rparr>]"

text \<open>A corpus whose words are written in lower case.\<close>

definition lowerCaseCorpus :: "entry list" where
  "lowerCaseCorpus =
    [\<lparr>entry_word = ''cat'', entry_definition = ''A small domesticated feline.'',
      frequency_rank = 1200, entry_difficulty = ''common'', entry_category = None\<rparr>,
     \<lparr>entry_word = ''dog'', entry_definition = ''A domesticated descendant of the wolf.'',
      frequency_rank = 900, entry_difficulty = ''common'', entry_category = None\<rparr>]"

text \<open>A dictionary service that is unreachable, and one that answers 404 for the word
  \<open>house\<close> and a usable definition for every other word.\<close>

definition apiDown :: "string \<Rightarrow> fetch_result" where
  "apiDown w = FetchError"

definition apiWithoutHouse :: "string \<Rightarrow> fetch_result" where
  "apiWithoutHouse w =
     (if w = ''house'' then Response False None
      else Response True
             (Some [\<lparr>api_word = w,
                     meanings = Some [\<lparr>partOfSpeech = ''noun'',
                       definitions = Some [''a thing that the dictionary describes'']\<rparr>]\<rparr>]))"

text \<open>Every word that \<^verbatim>\<open>WordService\<close> can choose as a candidate.\<close>

definition allListedWords :: "string list" where
  "allListedWords = CURATED_WORDS @ concat (map snd DYNAMIC_WORD_POOLS) @ randomWords"

text \<open>
  The failures of the definition lookup, as the specification lists them: a network error,
  a status that is not a success, a meanings array that is empty or absent, or every
  candidate definition (the first definition of a meaning, cleaned) shorter than 20 or
  longer than 200 characters.
\<close>

definition outsideBand :: "meaning \<Rightarrow> bool" where
  "outsideBand m =
     (case definitions m of
        None \<Rightarrow> True
      | Some [] \<Rightarrow> True
      | Some (d # _) \<Rightarrow> length (cleanDefinition d) < 20 \<or> 200 < length (cleanDefinition d))"

fun definitionLookupFails :: "fetch_result \<Rightarrow> bool" where
  "definitionLookupFails FetchError = True"
| "definitionLookupFails (Response ok data) =
     (if ok then
        (case data of
           None \<Rightarrow> True
         | Some [] \<Rightarrow> True
         | Some (d0 # _) \<Rightarrow>
             (case meanings d0 of None \<Rightarrow> True | Some ms \<Rightarrow> list_all outsideBand ms))
      else True)"

text \<open>A word that a client can show: a word, a definition, one of the three difficulties
  and a category.\<close>

definition validWord :: "Word \<Rightarrow> bool" where
  "validWord w =
     (w_word w \<noteq> [] \<and> w_definition w \<noteq> [] \<and>
      w_difficulty w \<in> {''easy'', ''medium'', ''hard''} \<and> w_category w \<noteq> [])"

section \<open>The shape of a cleaned definition\<close>

lemma has_paren_aside_append:
  "has_paren_aside (xs @ ys) =
     (has_paren_aside xs \<or> has_paren_aside ys \<or> (CHR ''('' \<in> set xs \<and> CHR '')'' \<in> set ys))"
  by (induction xs) auto

lemma has_paren_aside_dropWhile: "has_paren_aside (dropWhile P cs) \<Longrightarrow> has_paren_aside cs"
  using has_paren_aside_append [of "takeWhile P cs" "dropWhile P cs"] by simp

lemma set_strip_parens: "set (strip_parens s) \<subseteq> set s"
proof (induction s rule: strip_parens.induct)
  case 1
  show ?case by simp
next
  case (2 c cs)
  have "set (tl (dropWhile (\<lambda>x. x \<noteq> CHR '')'') cs)) \<subseteq> set cs"
  proof -
    have "set (tl ys) \<subseteq> set ys" for ys :: string by (cases ys) auto
    moreover have "set (dropWhile (\<lambda>x. x \<noteq> CHR '')'') cs) \<subseteq> set cs"
      by (auto dest: set_dropWhileD)
    ultimately show ?thesis by blast
  qed
  with 2 show ?case by auto
qed

lemma strip_parens_no_aside: "\<not> has_paren_aside (strip_parens s)"
proof (induction s rule: strip_parens.induct)
  case 1
  show ?case by simp
next
  case (2 c cs)
  show ?case
  proof (cases "c = CHR ''('' \<and> CHR '')'' \<in> set cs")
    case True
    with 2 show ?thesis by simp
  next
    case False
    with 2 set_strip_parens [of cs] show ?thesis by auto
  qed
qed

lemma set_collapse_ws: "set (collapse_ws s) \<subseteq> insert (CHR '' '') (set s)"
proof (induction s rule: collapse_ws.induct)
  case 1
  show ?case by simp
next
  case (2 c cs)
  have "set (dropWhile is_space cs) \<subseteq> set cs"
    by (auto dest: set_dropWhileD)
  with 2 show ?case by auto
qed

lemma collapse_ws_aside: "has_paren_aside (collapse_ws s) \<Longrightarrow> has_paren_aside s"
proof (induction s rule: collapse_ws.induct)
  case 1
  then show ?case by simp
next
  case (2 c cs)
  show ?case
  proof (cases "is_space c")
    case True
    with 2 have "has_paren_aside (dropWhile is_space cs)" by simp
    then show ?thesis by (simp add: has_paren_aside_dropWhile)
  next
    case False
    with 2 set_collapse_ws [of cs] show ?thesis by auto
  qed
qed

lemma toUpperCase_char_cases:
  "toUpperCase_char c = c \<or> (65 \<le> (of_char (toUpperCase_char c) :: nat) \<and> (of_char (toUpperCase_char c) :: nat) \<le> 90)"
  by (auto simp: toUpperCase_char_def Let_def)

lemma toUpperCase_char_paren: "toUpperCase_char c = CHR ''('' \<longleftrightarrow> c = CHR ''(''"
  using toUpperCase_char_cases [of c] by (auto simp: toUpperCase_char_def Let_def)

lemma is_space_toUpperCase_char: "is_space (toUpperCase_char c) = is_space c"
  using toUpperCase_char_cases [of c] by (auto simp: toUpperCase_char_def Let_def is_space_def)


lemma has_space_run_Cons:
  "has_space_run (a # s) = ((s \<noteq> [] \<and> is_space a \<and> is_space (hd s)) \<or> has_space_run s)"
  by (cases s) auto

lemma has_space_run_append:
  "has_space_run (xs @ ys) \<Longrightarrow> 
     has_space_run xs \<or> has_space_run ys \<or> (xs \<noteq> [] \<and> ys \<noteq> [] \<and> is_space (last xs) \<and> is_space (hd ys))"
  by (induction xs) (auto simp: has_space_run_Cons hd_append split: if_splits)

lemma has_space_run_appendI1: "has_space_run xs \<Longrightarrow> has_space_run (xs @ ys)"
  by (induction xs) (auto simp: has_space_run_Cons hd_append)

lemma has_space_run_appendI2: "has_space_run ys \<Longrightarrow> has_space_run (xs @ ys)"
  by (induction xs) (auto simp: has_space_run_Cons)

lemma collapse_ws_hd: "s \<noteq> [] \<Longrightarrow> \<not> is_space (hd s) \<Longrightarrow> hd (collapse_ws s) = hd s \<and> collapse_ws s \<noteq> []"
  by (cases s) auto

lemma collapse_ws_no_run: "\<not> has_space_run (collapse_ws s)"
proof (induction s rule: collapse_ws.induct)
  case 1
  show ?case by simp
next
  case (2 c cs)
  show ?case
  proof (cases "is_space c")
    case True
    let ?rest = "dropWhile is_space cs"
    have "collapse_ws ?rest \<noteq> [] \<Longrightarrow> \<not> is_space (hd (collapse_ws ?rest))"
    proof -
      assume ne: "collapse_ws ?rest \<noteq> []"
      have "?rest \<noteq> []"
      proof
        assume "?rest = []"
        then have "collapse_ws ?rest = []" by (simp only: collapse_ws.simps)
        with ne show False by contradiction
      qed
      moreover from this have "\<not> is_space (hd ?rest)" by (rule hd_dropWhile)
      ultimately show ?thesis using collapse_ws_hd [of ?rest] by simp
    qed
    with 2 True show ?thesis by (auto simp: has_space_run_Cons)
  next
    case False
    with 2 show ?thesis by (auto simp: has_space_run_Cons)
  qed
qed

lemma capitalize_first_aside: "has_paren_aside (capitalize_first s) = has_paren_aside s"
  by (cases s) (auto simp: capitalize_first_def toUpperCase_char_paren)

lemma capitalize_first_run: "has_space_run (capitalize_first s) = has_space_run s"
  by (cases s) (auto simp: capitalize_first_def has_space_run_Cons is_space_toUpperCase_char)

lemma ensure_period_eq: "ensure_period s = (if s \<noteq> [] \<and> last s = CHR ''.'' then s else s @ ''.'')"
  by (auto simp: ensure_period_def) (metis append_butlast_last_id)

lemma ensure_period_last: "ensure_period s \<noteq> [] \<and> last (ensure_period s) = CHR ''.''"
  by (simp add: ensure_period_eq)

lemma ensure_period_aside: "has_paren_aside (ensure_period s) = has_paren_aside s"
  by (simp add: ensure_period_eq has_paren_aside_append)

lemma not_space_period: "\<not> is_space (CHR ''.'')"
  by (simp add: is_space_def)

lemma ensure_period_run: "has_space_run (ensure_period s) \<Longrightarrow> has_space_run s"
  using has_space_run_append [of s "''.''"] by (auto simp: ensure_period_eq not_space_period split: if_splits)

lemma trim_decomp: "\<exists>pre post. s = pre @ trim s @ post"
proof -
  let ?m = "dropWhile is_space s"
  have "s = takeWhile is_space s @ ?m" by simp
  moreover have "?m = trim s @ rev (takeWhile is_space (rev ?m))"
  proof -
    have "rev (takeWhile is_space (rev ?m) @ dropWhile is_space (rev ?m)) = rev (rev ?m)"
      by (simp only: takeWhile_dropWhile_id)
    then have "rev (dropWhile is_space (rev ?m)) @ rev (takeWhile is_space (rev ?m)) = ?m"
      by (simp only: rev_append rev_rev_ident)
    then show ?thesis by (simp add: trim_def)
  qed
  ultimately have "s = takeWhile is_space s @ trim s @ rev (takeWhile is_space (rev ?m))" by simp
  then show ?thesis by blast
qed

lemma trim_aside: "has_paren_aside (trim s) \<Longrightarrow> has_paren_aside s"
proof -
  assume a: "has_paren_aside (trim s)"
  obtain pre post where "s = pre @ trim s @ post" using trim_decomp by blast
  then have "has_paren_aside s = has_paren_aside (pre @ trim s @ post)" by simp
  with a show ?thesis by (simp add: has_paren_aside_append)
qed

lemma trim_run: "has_space_run (trim s) \<Longrightarrow> has_space_run s"
proof -
  assume a: "has_space_run (trim s)"
  obtain pre post where s: "s = pre @ trim s @ post" using trim_decomp by blast
  from a have "has_space_run (pre @ trim s @ post)"
    by (simp add: has_space_run_appendI1 has_space_run_appendI2)
  with s show ?thesis by simp
qed

lemma trim_last:
  assumes "s \<noteq> []" and "\<not> is_space (last s)"
  shows "trim s \<noteq> [] \<and> last (trim s) = last s"
proof -
  let ?m = "dropWhile is_space s"
  from assms have "last s \<in> set s" "\<not> is_space (last s)" by simp_all
  then have ne: "?m \<noteq> []" by (auto simp: dropWhile_eq_Nil_conv)
  have "s = takeWhile is_space s @ ?m" by simp
  with ne have l: "last ?m = last s" by (metis last_appendR)
  with ne assms have "\<not> is_space (hd (rev ?m))" by (simp add: hd_rev)
  with ne have "dropWhile is_space (rev ?m) = rev ?m" by (cases "rev ?m") auto
  then have "trim s = ?m" by (simp add: trim_def)
  with ne l show ?thesis by simp
qed

text \<open>
  C8, as the code has it: for every input the cleaned definition contains no parenthesized
  aside and no two adjacent white space characters, and it ends with a period. (An input
  that ends with several periods keeps them.)
\<close>

theorem cleanDefinition_shape:
  "\<not> has_paren_aside (cleanDefinition s) \<and> \<not> has_space_run (cleanDefinition s) \<and>
   cleanDefinition s \<noteq> [] \<and> last (cleanDefinition s) = CHR ''.''"
proof -
  let ?a = "strip_parens s"
  let ?b = "collapse_ws ?a"
  let ?c = "capitalize_first ?b"
  let ?d = "ensure_period ?c"
  have c: "cleanDefinition s = trim ?d" by (simp add: cleanDefinition_def)
  have "\<not> has_paren_aside ?b" using strip_parens_no_aside collapse_ws_aside by blast
  then have "\<not> has_paren_aside ?d" by (simp add: ensure_period_aside capitalize_first_aside)
  then have 1: "\<not> has_paren_aside (trim ?d)" using trim_aside by blast
  have "\<not> has_space_run ?c" by (simp add: capitalize_first_run collapse_ws_no_run)
  then have "\<not> has_space_run ?d" using ensure_period_run by blast
  then have 2: "\<not> has_space_run (trim ?d)" using trim_run by blast
  have 3: "trim ?d \<noteq> [] \<and> last (trim ?d) = CHR ''.''"
    using trim_last [of ?d] ensure_period_last [of ?c] by (simp add: not_space_period)
  from c 1 2 3 show ?thesis by simp
qed


theorem cleanDefinition_shape_witness:
  "\<not> has_paren_aside (cleanDefinition ''a  (b) c'') \<and>
   \<not> has_space_run (cleanDefinition ''a  (b) c'') \<and>
   cleanDefinition ''a  (b) c'' \<noteq> [] \<and> last (cleanDefinition ''a  (b) c'') = CHR ''.''"
  using cleanDefinition_shape [of "''a  (b) c''"] by simp

text \<open>
  C8, as the claim states it, fails: a definition that opens with a parenthesized aside
  and ends with two periods comes out with a lower-case first letter and both periods.
\<close>

theorem cleanDefinition_shape_counterexample:
  "cleanDefinition ''(of a person) kind..'' = ''kind..'' \<and>
   \<not> starts_uppercase (cleanDefinition ''(of a person) kind..'') \<and>
   trailing_periods (cleanDefinition ''(of a person) kind..'') = 2"
  by (simp add: cleanDefinition_def trim_def ensure_period_def capitalize_first_def
      is_space_def is_line_terminator_def toUpperCase_char_def starts_uppercase_def
      trailing_periods_def)

text \<open>
  C7: cleaning is not idempotent. The aside is removed before the first character is
  capitalized and the white space behind the aside is trimmed last, so the first pass
  capitalizes a space and the second pass the letter.
\<close>

theorem cleanDefinition_not_idempotent:
  "cleanDefinition ''(of a person) kind'' = ''kind.'' \<and>
   cleanDefinition (cleanDefinition ''(of a person) kind'') = ''Kind.''"
  by code_simp

section \<open>EnhancedWordService: exhaustion and reset\<close>

lemma randomIndex_less: "0 < n \<Longrightarrow> randomIndex r n < n"
  by (simp add: randomIndex_def)

lemma nth_randomIndex_mem: "xs \<noteq> [] \<Longrightarrow> xs ! randomIndex r (length xs) \<in> set xs"
  by (simp add: randomIndex_less)

lemma fold_delete_words:
  "fold (\<lambda>w used. used - {entry_word w}) pool U = U - entry_word ` set pool"
  by (induction pool arbitrary: U) auto

lemma filter_after_reset:
  "filter (\<lambda>w. entry_word w \<notin> U - entry_word ` set pool) pool = pool"
  by (induction pool) auto

lemma w_word_wordOfEntry: "w_word (wordOfEntry now e) = entry_word e"
  by (simp add: wordOfEntry_def)

lemma getWordByDifficulty_available:
  assumes "filter (\<lambda>w. entry_word w \<notin> U) (wordPool db d) \<noteq> []"
  shows "getWordByDifficulty db d r now U =
           Some (Some (wordOfEntry now (filter (\<lambda>w. entry_word w \<notin> U) (wordPool db d) !
                    randomIndex r (length (filter (\<lambda>w. entry_word w \<notin> U) (wordPool db d))))),
                 insert (entry_word (filter (\<lambda>w. entry_word w \<notin> U) (wordPool db d) !
                    randomIndex r (length (filter (\<lambda>w. entry_word w \<notin> U) (wordPool db d))))) U)"
  using assms by (subst getWordByDifficulty.simps) (simp add: Let_def)

lemma getWordByDifficulty_exhausted:
  assumes "filter (\<lambda>w. entry_word w \<notin> U) (wordPool db d) = []"
  shows "getWordByDifficulty db d r now U =
           getWordByDifficulty db d r now (U - entry_word ` set (wordPool db d))"
  using assms by (subst getWordByDifficulty.simps) (simp add: fold_delete_words)

lemma getWordByDifficulty_returns_pool:
  assumes ret: "getWordByDifficulty db0 d0 r0 now0 U0 = Some y0"
  shows "wordPool db0 d0 \<noteq> []"
proof (rule getWordByDifficulty.raw_induct
    [where P = "\<lambda>db d r now U y. wordPool db d \<noteq> []", OF _ ret])
  fix f :: "entry list \<Rightarrow> string \<Rightarrow> nat \<Rightarrow> nat \<Rightarrow> string set \<Rightarrow> (Word option \<times> string set) option"
    and db d r now U y
  assume IH: "\<And>db d r now U y. f db d r now U = Some y \<Longrightarrow> wordPool db d \<noteq> []"
    and body:
      "(let availableWords = filter (\<lambda>w. entry_word w \<notin> U) (wordPool db d) in
        if length availableWords = 0
        then f db d r now (fold (\<lambda>w used. used - {entry_word w}) (wordPool db d) U)
        else
          let randomWord = availableWords ! randomIndex r (length availableWords) in
          Some (Some (wordOfEntry now randomWord), insert (entry_word randomWord) U)) = Some y"
  show "wordPool db d \<noteq> []"
  proof (cases "filter (\<lambda>w. entry_word w \<notin> U) (wordPool db d) = []")
    case True
    with body have "f db d r now (fold (\<lambda>w used. used - {entry_word w}) (wordPool db d) U) = Some y"
      by (simp add: Let_def)
    then show ?thesis by (rule IH)
  next
    case False
    then show ?thesis by auto
  qed
qed

lemma getRandomWordWithDefinition_enhanced_returns:
  assumes ret: "getRandomWordWithDefinition_enhanced db0 r0 now0 U0 = Some y0"
  shows "db0 \<noteq> []"
proof (rule getRandomWordWithDefinition_enhanced.raw_induct
    [where P = "\<lambda>db r now U y. db \<noteq> []", OF _ ret])
  fix f :: "entry list \<Rightarrow> nat \<Rightarrow> nat \<Rightarrow> string set \<Rightarrow> (Word option \<times> string set) option"
    and db r now U y
  assume IH: "\<And>db r now U y. f db r now U = Some y \<Longrightarrow> db \<noteq> []"
    and body:
      "(let availableWords = filter (\<lambda>w. entry_word w \<notin> U) db in
        if length availableWords = 0
        then f db r now {}
        else
          let randomWord = availableWords ! randomIndex r (length availableWords) in
          Some (Some (wordOfEntry now randomWord), insert (entry_word randomWord) U)) = Some y"
  show "db \<noteq> []"
  proof (cases "filter (\<lambda>w. entry_word w \<notin> U) db = []")
    case True
    with body have "f db r now {} = Some y" by (simp add: Let_def)
    then show ?thesis by (rule IH)
  next
    case False
    then show ?thesis by auto
  qed
qed

lemma wordPool_fallback_medium: "wordPool getFallbackWordList ''medium'' = []"
  by (simp add: wordPool_def WORDS_BY_DIFFICULTY_medium_def getFallbackWordList_def)

text \<open>
  C2: on an empty pool neither method returns. With the built-in word list, whose three
  words are all common, the pool of the tier medium is empty: the call finds no available
  word, deletes nothing and calls itself again, without end. The same holds for
  \<^verbatim>\<open>getRandomWordWithDefinition\<close> on an empty database. Neither returns \<^verbatim>\<open>null\<close>.
\<close>

theorem exhausted_empty_pool_never_returns:
  "getWordByDifficulty getFallbackWordList ''medium'' r now usedWords = None \<and>
   getRandomWordWithDefinition_enhanced [] r now usedWords = None"
proof -
  have "getWordByDifficulty getFallbackWordList ''medium'' r now usedWords = None"
    using getWordByDifficulty_returns_pool [of getFallbackWordList "''medium''" r now usedWords]
      wordPool_fallback_medium by (cases "getWordByDifficulty getFallbackWordList ''medium'' r now usedWords") auto
  moreover have "getRandomWordWithDefinition_enhanced [] r now usedWords = None"
    using getRandomWordWithDefinition_enhanced_returns [of "[]" r now usedWords]
    by (cases "getRandomWordWithDefinition_enhanced [] r now usedWords") auto
  ultimately show ?thesis by simp
qed


lemma getWordByDifficulty_after_reset:
  assumes "filter (\<lambda>w. entry_word w \<notin> U) (wordPool db d) = []" and "wordPool db d \<noteq> []"
  shows "getWordByDifficulty db d r now U =
           Some (Some (wordOfEntry now (wordPool db d ! randomIndex r (length (wordPool db d)))),
                 insert (entry_word (wordPool db d ! randomIndex r (length (wordPool db d))))
                   (U - entry_word ` set (wordPool db d)))"
proof -
  let ?U' = "U - entry_word ` set (wordPool db d)"
  have f: "filter (\<lambda>w. entry_word w \<notin> ?U') (wordPool db d) = wordPool db d"
    by (rule filter_after_reset)
  have "getWordByDifficulty db d r now U = getWordByDifficulty db d r now ?U'"
    using assms(1) by (rule getWordByDifficulty_exhausted)
  also have "\<dots> = Some (Some (wordOfEntry now (wordPool db d ! randomIndex r (length (wordPool db d)))),
                 insert (entry_word (wordPool db d ! randomIndex r (length (wordPool db d)))) ?U')"
    using getWordByDifficulty_available [of ?U' db d r now] assms(2) by (simp add: f)
  finally show ?thesis .
qed

text \<open>
  C1, as the code has it: when no word of the requested pool is available,
  \<^verbatim>\<open>getWordByDifficulty\<close> deletes from \<^verbatim>\<open>usedWords\<close> the words of that pool only and
  calls itself again; every used word outside the pool stays in the set. With a
  non-empty pool the retry returns a word of the pool.
\<close>

theorem getWordByDifficulty_resets_pool_only:
  assumes "filter (\<lambda>w. entry_word w \<notin> usedWords) (wordPool db difficulty) = []"
  shows "getWordByDifficulty db difficulty r now usedWords =
           getWordByDifficulty db difficulty r now
             (usedWords - entry_word ` set (wordPool db difficulty)) \<and>
         (wordPool db difficulty \<noteq> [] \<longrightarrow>
            (\<exists>e \<in> set (wordPool db difficulty).
               getWordByDifficulty db difficulty r now usedWords =
                 Some (Some (wordOfEntry now e),
                       insert (entry_word e)
                         (usedWords - entry_word ` set (wordPool db difficulty)))))"
proof (intro conjI impI)
  show "getWordByDifficulty db difficulty r now usedWords =
          getWordByDifficulty db difficulty r now
            (usedWords - entry_word ` set (wordPool db difficulty))"
    using assms by (rule getWordByDifficulty_exhausted)
next
  assume ne: "wordPool db difficulty \<noteq> []"
  let ?e = "wordPool db difficulty ! randomIndex r (length (wordPool db difficulty))"
  from ne have "?e \<in> set (wordPool db difficulty)" by (rule nth_randomIndex_mem)
  moreover note getWordByDifficulty_after_reset [OF assms ne, of r now]
  ultimately show "\<exists>e \<in> set (wordPool db difficulty).
      getWordByDifficulty db difficulty r now usedWords =
        Some (Some (wordOfEntry now e),
              insert (entry_word e) (usedWords - entry_word ` set (wordPool db difficulty)))"
    by blast
qed

lemma sample_easy: "wordPool sampleCorpus ''easy'' = [hd sampleCorpus]"
  by (simp add: wordPool_def WORDS_BY_DIFFICULTY_easy_def sampleCorpus_def)

theorem getWordByDifficulty_resets_pool_only_witness:
  "filter (\<lambda>w. entry_word w \<notin> {''CAT'', ''ELEPHANT''}) (wordPool sampleCorpus ''easy'') = [] \<and>
   wordPool sampleCorpus ''easy'' \<noteq> [] \<and>
   (\<exists>e \<in> set (wordPool sampleCorpus ''easy'').
      getWordByDifficulty sampleCorpus ''easy'' 0 0 {''CAT'', ''ELEPHANT''} =
        Some (Some (wordOfEntry 0 e),
              insert (entry_word e)
                ({''CAT'', ''ELEPHANT''} - entry_word ` set (wordPool sampleCorpus ''easy''))))"
proof -
  have h: "filter (\<lambda>w. entry_word w \<notin> {''CAT'', ''ELEPHANT''}) (wordPool sampleCorpus ''easy'') = []"
    by (simp add: sample_easy) (simp add: sampleCorpus_def)
  have ne: "wordPool sampleCorpus ''easy'' \<noteq> []" by (simp add: sample_easy)
  from getWordByDifficulty_resets_pool_only [OF h, of 0 0] h ne show ?thesis by blast
qed

text \<open>
  C1, as the claim states it, fails: with the easy pool exhausted, the hard word
  \<open>ELEPHANT\<close> is still in \<^verbatim>\<open>usedWords\<close> after the call.
\<close>

theorem getWordByDifficulty_clear_counterexample:
  "getWordByDifficulty sampleCorpus ''easy'' 0 0 {''CAT'', ''ELEPHANT''} =
     Some (Some \<lparr>w_id = 0, w_word = ''CAT'', w_definition = ''A small domesticated feline.'',
                  w_difficulty = ''easy'', w_category = ''general''\<rparr>,
           {''CAT'', ''ELEPHANT''})"
proof -
  have h: "filter (\<lambda>w. entry_word w \<notin> {''CAT'', ''ELEPHANT''}) (wordPool sampleCorpus ''easy'') = []"
    by (simp add: sample_easy) (simp add: sampleCorpus_def)
  have ne: "wordPool sampleCorpus ''easy'' \<noteq> []" by (simp add: sample_easy)
  show ?thesis
    unfolding getWordByDifficulty_after_reset [OF h ne]
    by (auto simp add: sample_easy randomIndex_def) (simp_all add: sampleCorpus_def wordOfEntry_def mapDifficulty_def)
qed

section \<open>EnhancedWordService: selection with exclusion\<close>

lemma filter_empty_set: "filter (\<lambda>w. entry_word w \<notin> {}) pool = pool"
  by simp

lemma getSmartWordSelection_unseen:
  assumes "filter (\<lambda>w. toUpperCase (entry_word w) \<notin> set seen \<and> entry_word w \<notin> U) (wordPool db d) \<noteq> []"
  shows "getSmartWordSelection db seen d r now U =
     (Some (wordOfEntry now
        (filter (\<lambda>w. toUpperCase (entry_word w) \<notin> set seen \<and> entry_word w \<notin> U) (wordPool db d) !
          randomIndex r (length (filter (\<lambda>w. toUpperCase (entry_word w) \<notin> set seen \<and> entry_word w \<notin> U) (wordPool db d))))),
      insert (entry_word
        (filter (\<lambda>w. toUpperCase (entry_word w) \<notin> set seen \<and> entry_word w \<notin> U) (wordPool db d) !
          randomIndex r (length (filter (\<lambda>w. toUpperCase (entry_word w) \<notin> set seen \<and> entry_word w \<notin> U) (wordPool db d))))) U)"
  using assms by (simp add: getSmartWordSelection_def Let_def)

lemma getSmartWordSelection_all_seen:
  assumes "filter (\<lambda>w. toUpperCase (entry_word w) \<notin> set seen \<and> entry_word w \<notin> U) (wordPool db d) = []"
  shows "getSmartWordSelection db seen d r now U =
     (if wordPool db d = [] then (None, {})
      else (Some (wordOfEntry now (wordPool db d ! randomIndex r (length (wordPool db d)))),
            {entry_word (wordPool db d ! randomIndex r (length (wordPool db d)))}))"
  using assms by (simp add: getSmartWordSelection_def Let_def)

lemma nth_randomIndex_filter:
  assumes "filter P xs \<noteq> []"
  shows "filter P xs ! randomIndex r (length (filter P xs)) \<in> set xs \<and>
         P (filter P xs ! randomIndex r (length (filter P xs)))"
  using nth_randomIndex_mem [OF assms, of r] by simp

text \<open>
  C4, as the code has it: in \<^verbatim>\<open>getWordByDifficulty\<close>, for every tier and every set
  \<^verbatim>\<open>usedWords\<close>, a call with an available word returns a word of the pool that is not in
  \<^verbatim>\<open>usedWords\<close>; a call on a non-empty pool whose words are all used resets and returns
  a word of the pool. In \<^verbatim>\<open>getSmartWordSelection\<close>, for every database, personal list and
  \<^verbatim>\<open>usedWords\<close>, a call with an unseen word returns a word of the pool that is not in
  \<^verbatim>\<open>usedWords\<close> and whose upper-casing is not in the personal list; a word that is
  written in upper case is then in neither. A call on a non-empty pool with no unseen word
  resets and returns a word of the pool.
\<close>

theorem selection_honours_exclusion:
  "(filter (\<lambda>w. entry_word w \<notin> usedWords) (wordPool db difficulty) \<noteq> [] \<longrightarrow>
      (\<exists>w. getWordByDifficulty db difficulty r now usedWords =
               Some (Some w, insert (w_word w) usedWords) \<and>
           w_word w \<notin> usedWords \<and> w_word w \<in> entry_word ` set (wordPool db difficulty))) \<and>
   (wordPool db difficulty \<noteq> [] \<and>
    filter (\<lambda>w. entry_word w \<notin> usedWords) (wordPool db difficulty) = [] \<longrightarrow>
      (\<exists>w. getWordByDifficulty db difficulty r now usedWords =
               Some (Some w, insert (w_word w)
                               (usedWords - entry_word ` set (wordPool db difficulty))) \<and>
           w_word w \<in> entry_word ` set (wordPool db difficulty))) \<and>
   (filter (\<lambda>w. toUpperCase (entry_word w) \<notin> set seenWords \<and> entry_word w \<notin> usedWords)
      (wordPool db difficulty) \<noteq> [] \<longrightarrow>
      (\<exists>w. getSmartWordSelection db seenWords difficulty r now usedWords =
               (Some w, insert (w_word w) usedWords) \<and>
           toUpperCase (w_word w) \<notin> set seenWords \<and> w_word w \<notin> usedWords \<and>
           (toUpperCase (w_word w) = w_word w \<longrightarrow> w_word w \<notin> set seenWords \<union> usedWords) \<and>
           w_word w \<in> entry_word ` set (wordPool db difficulty))) \<and>
   (wordPool db difficulty \<noteq> [] \<and>
    filter (\<lambda>w. toUpperCase (entry_word w) \<notin> set seenWords \<and> entry_word w \<notin> usedWords)
      (wordPool db difficulty) = [] \<longrightarrow>
      (\<exists>w. getSmartWordSelection db seenWords difficulty r now usedWords =
               (Some w, {w_word w}) \<and>
           w_word w \<in> entry_word ` set (wordPool db difficulty)))"
proof (intro conjI impI)
  let ?pool = "wordPool db difficulty"
  {
    let ?av = "filter (\<lambda>w. entry_word w \<notin> usedWords) ?pool"
    let ?e = "?av ! randomIndex r (length ?av)"
    assume ne: "?av \<noteq> []"
    from nth_randomIndex_filter [OF ne, of r]
    have "?e \<in> set ?pool" and "entry_word ?e \<notin> usedWords" by simp_all
    with getWordByDifficulty_available [OF ne, of r now]
    have "getWordByDifficulty db difficulty r now usedWords =
            Some (Some (wordOfEntry now ?e), insert (w_word (wordOfEntry now ?e)) usedWords) \<and>
          w_word (wordOfEntry now ?e) \<notin> usedWords \<and>
          w_word (wordOfEntry now ?e) \<in> entry_word ` set ?pool"
      by (simp add: w_word_wordOfEntry)
    then show "\<exists>w. getWordByDifficulty db difficulty r now usedWords =
               Some (Some w, insert (w_word w) usedWords) \<and>
           w_word w \<notin> usedWords \<and> w_word w \<in> entry_word ` set ?pool"
      by blast
  }
  {
    let ?e = "?pool ! randomIndex r (length ?pool)"
    assume "?pool \<noteq> [] \<and> filter (\<lambda>w. entry_word w \<notin> usedWords) ?pool = []"
    then have ne: "?pool \<noteq> []" and ex: "filter (\<lambda>w. entry_word w \<notin> usedWords) ?pool = []"
      by simp_all
    from ne have "?e \<in> set ?pool" by (rule nth_randomIndex_mem)
    with getWordByDifficulty_after_reset [OF ex ne, of r now]
    have "getWordByDifficulty db difficulty r now usedWords =
            Some (Some (wordOfEntry now ?e),
                  insert (w_word (wordOfEntry now ?e)) (usedWords - entry_word ` set ?pool)) \<and>
          w_word (wordOfEntry now ?e) \<in> entry_word ` set ?pool"
      by (simp add: w_word_wordOfEntry)
    then show "\<exists>w. getWordByDifficulty db difficulty r now usedWords =
               Some (Some w, insert (w_word w) (usedWords - entry_word ` set ?pool)) \<and>
           w_word w \<in> entry_word ` set ?pool"
      by blast
  }
  {
    let ?un = "filter (\<lambda>w. toUpperCase (entry_word w) \<notin> set seenWords \<and> entry_word w \<notin> usedWords) ?pool"
    let ?e = "?un ! randomIndex r (length ?un)"
    assume ne: "?un \<noteq> []"
    from nth_randomIndex_filter [OF ne, of r]
    have mem: "?e \<in> set ?pool" and up: "toUpperCase (entry_word ?e) \<notin> set seenWords"
      and used: "entry_word ?e \<notin> usedWords" by simp_all
    from up used
    have "toUpperCase (entry_word ?e) = entry_word ?e \<longrightarrow>
          entry_word ?e \<notin> set seenWords \<union> usedWords"
      by auto
    with mem up used getSmartWordSelection_unseen [OF ne, of r now]
    have "getSmartWordSelection db seenWords difficulty r now usedWords =
            (Some (wordOfEntry now ?e), insert (w_word (wordOfEntry now ?e)) usedWords) \<and>
          toUpperCase (w_word (wordOfEntry now ?e)) \<notin> set seenWords \<and>
          w_word (wordOfEntry now ?e) \<notin> usedWords \<and>
          (toUpperCase (w_word (wordOfEntry now ?e)) = w_word (wordOfEntry now ?e) \<longrightarrow>
             w_word (wordOfEntry now ?e) \<notin> set seenWords \<union> usedWords) \<and>
          w_word (wordOfEntry now ?e) \<in> entry_word ` set ?pool"
      by (simp add: w_word_wordOfEntry)
    then show "\<exists>w. getSmartWordSelection db seenWords difficulty r now usedWords =
               (Some w, insert (w_word w) usedWords) \<and>
           toUpperCase (w_word w) \<notin> set seenWords \<and> w_word w \<notin> usedWords \<and>
           (toUpperCase (w_word w) = w_word w \<longrightarrow> w_word w \<notin> set seenWords \<union> usedWords) \<and>
           w_word w \<in> entry_word ` set ?pool"
      by blast
  }
  {
    let ?e = "?pool ! randomIndex r (length ?pool)"
    assume "?pool \<noteq> [] \<and>
      filter (\<lambda>w. toUpperCase (entry_word w) \<notin> set seenWords \<and> entry_word w \<notin> usedWords) ?pool = []"
    then have ne: "?pool \<noteq> []"
      and ex: "filter (\<lambda>w. toUpperCase (entry_word w) \<notin> set seenWords \<and> entry_word w \<notin> usedWords) ?pool = []"
      by simp_all
    from ne have "?e \<in> set ?pool" by (rule nth_randomIndex_mem)
    with getSmartWordSelection_all_seen [OF ex, of r now] ne
    have "getSmartWordSelection db seenWords difficulty r now usedWords =
            (Some (wordOfEntry now ?e), {w_word (wordOfEntry now ?e)}) \<and>
          w_word (wordOfEntry now ?e) \<in> entry_word ` set ?pool"
      by (simp add: w_word_wordOfEntry)
    then show "\<exists>w. getSmartWordSelection db seenWords difficulty r now usedWords =
               (Some w, {w_word w}) \<and> w_word w \<in> entry_word ` set ?pool"
      by blast
  }
qed


lemma sample_mixed: "wordPool sampleCorpus ''mixed'' = sampleCorpus"
  by (simp add: wordPool_def)

theorem selection_honours_exclusion_witness:
  "filter (\<lambda>w. entry_word w \<notin> {''CAT''}) (wordPool sampleCorpus ''mixed'') \<noteq> [] \<and>
   (\<exists>w. getWordByDifficulty sampleCorpus ''mixed'' 0 0 {''CAT''} =
            Some (Some w, insert (w_word w) {''CAT''}) \<and>
        w_word w \<notin> {''CAT''} \<and> w_word w \<in> entry_word ` set (wordPool sampleCorpus ''mixed'')) \<and>
   filter (\<lambda>w. toUpperCase (entry_word w) \<notin> set [''DOG''] \<and> entry_word w \<notin> {''CAT''})
     (wordPool sampleCorpus ''mixed'') \<noteq> [] \<and>
   (\<exists>w. getSmartWordSelection sampleCorpus [''DOG''] ''mixed'' 0 0 {''CAT''} =
            (Some w, insert (w_word w) {''CAT''}) \<and>
        toUpperCase (w_word w) \<notin> set [''DOG''] \<and> w_word w \<notin> {''CAT''} \<and>
        toUpperCase (w_word w) = w_word w \<and> w_word w \<notin> set [''DOG''] \<union> {''CAT''} \<and>
        w_word w \<in> entry_word ` set (wordPool sampleCorpus ''mixed'')) \<and>
   wordPool sampleCorpus ''easy'' \<noteq> [] \<and>
   filter (\<lambda>w. entry_word w \<notin> {''CAT'', ''ELEPHANT''}) (wordPool sampleCorpus ''easy'') = [] \<and>
   (\<exists>w. getWordByDifficulty sampleCorpus ''easy'' 0 0 {''CAT'', ''ELEPHANT''} =
            Some (Some w, insert (w_word w)
              ({''CAT'', ''ELEPHANT''} - entry_word ` set (wordPool sampleCorpus ''easy''))) \<and>
        w_word w \<in> entry_word ` set (wordPool sampleCorpus ''easy'')) \<and>
   filter (\<lambda>w. toUpperCase (entry_word w) \<notin> set [''CAT''] \<and> entry_word w \<notin> {''CAT'', ''ELEPHANT''})
     (wordPool sampleCorpus ''easy'') = [] \<and>
   (\<exists>w. getSmartWordSelection sampleCorpus [''CAT''] ''easy'' 0 0 {''CAT'', ''ELEPHANT''} =
            (Some w, {w_word w}) \<and>
        w_word w \<in> entry_word ` set (wordPool sampleCorpus ''easy''))"
proof -
  have a: "filter (\<lambda>w. entry_word w \<notin> {''CAT''}) (wordPool sampleCorpus ''mixed'') \<noteq> []"
    by (simp add: sample_mixed) (simp add: sampleCorpus_def)
  have u: "\<forall>e \<in> set (wordPool sampleCorpus ''mixed''). toUpperCase (entry_word e) = entry_word e"
    by (simp add: sample_mixed) (simp add: sampleCorpus_def toUpperCase_def toUpperCase_char_def)
  have c: "filter (\<lambda>w. toUpperCase (entry_word w) \<notin> set [''DOG''] \<and> entry_word w \<notin> {''CAT''})
             (wordPool sampleCorpus ''mixed'') \<noteq> []"
    by (simp add: sample_mixed) (simp add: sampleCorpus_def toUpperCase_def toUpperCase_char_def)
  have ne: "wordPool sampleCorpus ''easy'' \<noteq> []" by (simp add: sample_easy)
  have b: "filter (\<lambda>w. entry_word w \<notin> {''CAT'', ''ELEPHANT''}) (wordPool sampleCorpus ''easy'') = []"
    by (simp add: sample_easy) (simp add: sampleCorpus_def)
  have d: "filter (\<lambda>w. toUpperCase (entry_word w) \<notin> set [''CAT''] \<and> entry_word w \<notin> {''CAT'', ''ELEPHANT''})
             (wordPool sampleCorpus ''easy'') = []"
    by (simp add: sample_easy) (simp add: sampleCorpus_def)
  note T1 = selection_honours_exclusion [where usedWords = "{''CAT''}" and db = sampleCorpus
      and difficulty = "''mixed''" and r = 0 and now = 0 and seenWords = "[''DOG'']"]
  note T2 = selection_honours_exclusion [where usedWords = "{''CAT'', ''ELEPHANT''}"
      and db = sampleCorpus and difficulty = "''easy''" and r = 0 and now = 0
      and seenWords = "[''CAT'']"]
  from T1 a have A: "\<exists>w. getWordByDifficulty sampleCorpus ''mixed'' 0 0 {''CAT''} =
            Some (Some w, insert (w_word w) {''CAT''}) \<and>
        w_word w \<notin> {''CAT''} \<and> w_word w \<in> entry_word ` set (wordPool sampleCorpus ''mixed'')"
    by blast
  from T1 c obtain w where w:
    "getSmartWordSelection sampleCorpus [''DOG''] ''mixed'' 0 0 {''CAT''} =
       (Some w, insert (w_word w) {''CAT''})"
    "toUpperCase (w_word w) \<notin> set [''DOG'']" "w_word w \<notin> {''CAT''}"
    "toUpperCase (w_word w) = w_word w \<longrightarrow> w_word w \<notin> set [''DOG''] \<union> {''CAT''}"
    "w_word w \<in> entry_word ` set (wordPool sampleCorpus ''mixed'')"
    by blast
  from w(5) u have wu: "toUpperCase (w_word w) = w_word w" by auto
  with w(4) have "w_word w \<notin> set [''DOG''] \<union> {''CAT''}" by blast
  with w wu have C: "\<exists>w. getSmartWordSelection sampleCorpus [''DOG''] ''mixed'' 0 0 {''CAT''} =
            (Some w, insert (w_word w) {''CAT''}) \<and>
        toUpperCase (w_word w) \<notin> set [''DOG''] \<and> w_word w \<notin> {''CAT''} \<and>
        toUpperCase (w_word w) = w_word w \<and> w_word w \<notin> set [''DOG''] \<union> {''CAT''} \<and>
        w_word w \<in> entry_word ` set (wordPool sampleCorpus ''mixed'')"
    by blast
  from T2 ne b have B: "\<exists>w. getWordByDifficulty sampleCorpus ''easy'' 0 0 {''CAT'', ''ELEPHANT''} =
            Some (Some w, insert (w_word w)
              ({''CAT'', ''ELEPHANT''} - entry_word ` set (wordPool sampleCorpus ''easy''))) \<and>
        w_word w \<in> entry_word ` set (wordPool sampleCorpus ''easy'')"
    by blast
  from T2 ne d have D: "\<exists>w. getSmartWordSelection sampleCorpus [''CAT''] ''easy'' 0 0 {''CAT'', ''ELEPHANT''} =
            (Some w, {w_word w}) \<and>
        w_word w \<in> entry_word ` set (wordPool sampleCorpus ''easy'')"
    by blast
  from a A c C ne b B d D show ?thesis by (intro conjI)
qed

text \<open>
  C4, as the claim states it, fails in \<^verbatim>\<open>getSmartWordSelection\<close>: with a database whose
  words are written in lower case and the personal list \<open>[cat]\<close>, the filtered pool is not
  empty and the call returns \<open>cat\<close>, a word of the exclusion set. The method looks up
  \<open>CAT\<close>, which the list does not hold.
\<close>

theorem selection_honours_exclusion_counterexample:
  "filter (\<lambda>w. toUpperCase (entry_word w) \<notin> set [''cat''] \<and> entry_word w \<notin> {})
     (wordPool lowerCaseCorpus ''mixed'') = lowerCaseCorpus \<and>
   getSmartWordSelection lowerCaseCorpus [''cat''] ''mixed'' 0 0 {} =
     (Some \<lparr>w_id = 0, w_word = ''cat'', w_definition = ''A small domesticated feline.'',
             w_difficulty = ''easy'', w_category = ''general''\<rparr>, {''cat''}) \<and>
   ''cat'' \<in> set [''cat''] \<union> {}"
proof -
  have up: "toUpperCase ''cat'' = ''CAT''" "toUpperCase ''dog'' = ''DOG''"
    by code_simp+
  have f: "filter (\<lambda>w. toUpperCase (entry_word w) \<notin> set [''cat''] \<and> entry_word w \<notin> {})
     (wordPool lowerCaseCorpus ''mixed'') = lowerCaseCorpus"
    by (simp add: wordPool_def) (simp add: lowerCaseCorpus_def up)
  have ne: "lowerCaseCorpus \<noteq> []" by (simp add: lowerCaseCorpus_def)
  from f ne have "getSmartWordSelection lowerCaseCorpus [''cat''] ''mixed'' 0 0 {} =
      (Some (wordOfEntry 0 (lowerCaseCorpus ! randomIndex 0 (length lowerCaseCorpus))),
       insert (entry_word (lowerCaseCorpus ! randomIndex 0 (length lowerCaseCorpus))) {})"
    using getSmartWordSelection_unseen [of "[''cat'']" "{}" lowerCaseCorpus "''mixed''" 0 0]
    by simp
  then have "getSmartWordSelection lowerCaseCorpus [''cat''] ''mixed'' 0 0 {} =
     (Some \<lparr>w_id = 0, w_word = ''cat'', w_definition = ''A small domesticated feline.'',
             w_difficulty = ''easy'', w_category = ''general''\<rparr>, {''cat''})"
    by (simp add: randomIndex_def)
       (simp add: lowerCaseCorpus_def wordOfEntry_def mapDifficulty_def)
  with f show ?thesis by simp
qed

text \<open>
  C5: when \<^verbatim>\<open>getSmartWordSelection\<close> finds no word outside the personal list and
  \<^verbatim>\<open>usedWords\<close>, it clears \<^verbatim>\<open>usedWords\<close> and draws from the whole pool, so the word may be
  one of the personal list; the new \<^verbatim>\<open>usedWords\<close> holds that word alone. It returns
  \<^verbatim>\<open>null\<close> exactly when the pool is empty. The personal list is an argument that the
  method only reads: the state it returns is \<^verbatim>\<open>usedWords\<close>.
\<close>

theorem smart_selection_all_seen:
  "(filter (\<lambda>w. toUpperCase (entry_word w) \<notin> set seenWords \<and> entry_word w \<notin> usedWords)
      (wordPool db difficulty) = [] \<longrightarrow>
    getSmartWordSelection db seenWords difficulty r now usedWords =
      (if wordPool db difficulty = [] then (None, {})
       else (Some (wordOfEntry now
                (wordPool db difficulty ! randomIndex r (length (wordPool db difficulty)))),
             {entry_word
                (wordPool db difficulty ! randomIndex r (length (wordPool db difficulty)))}))) \<and>
   (fst (getSmartWordSelection db seenWords difficulty r now usedWords) = None) =
     (wordPool db difficulty = [])"
proof (intro conjI impI)
  let ?un = "filter (\<lambda>w. toUpperCase (entry_word w) \<notin> set seenWords \<and> entry_word w \<notin> usedWords)
      (wordPool db difficulty)"
  show "(fst (getSmartWordSelection db seenWords difficulty r now usedWords) = None) =
     (wordPool db difficulty = [])"
  proof (cases "?un = []")
    case True
    then show ?thesis by (simp add: getSmartWordSelection_all_seen)
  next
    case False
    then have "wordPool db difficulty \<noteq> []" by auto
    with False show ?thesis by (simp add: getSmartWordSelection_unseen)
  qed
qed (rule getSmartWordSelection_all_seen)

theorem smart_selection_all_seen_witness:
  "filter (\<lambda>w. toUpperCase (entry_word w) \<notin> set [''CAT''] \<and> entry_word w \<notin> {''ELEPHANT''})
      (wordPool sampleCorpus ''easy'') = [] \<and>
   getSmartWordSelection sampleCorpus [''CAT''] ''easy'' 0 0 {''ELEPHANT''} =
     (Some \<lparr>w_id = 0, w_word = ''CAT'', w_definition = ''A small domesticated feline.'',
             w_difficulty = ''easy'', w_category = ''general''\<rparr>, {''CAT''})"
proof -
  have h: "filter (\<lambda>w. toUpperCase (entry_word w) \<notin> set [''CAT''] \<and> entry_word w \<notin> {''ELEPHANT''})
      (wordPool sampleCorpus ''easy'') = []"
    by (simp add: sample_easy) (simp add: sampleCorpus_def toUpperCase_def toUpperCase_char_def)
  from smart_selection_all_seen [where seenWords = "[''CAT'']" and usedWords = "{''ELEPHANT''}"
      and db = sampleCorpus and difficulty = "''easy''" and r = 0 and now = 0] h
  have "getSmartWordSelection sampleCorpus [''CAT''] ''easy'' 0 0 {''ELEPHANT''} =
      (if wordPool sampleCorpus ''easy'' = [] then (None, {})
       else (Some (wordOfEntry 0
                (wordPool sampleCorpus ''easy'' ! randomIndex 0 (length (wordPool sampleCorpus ''easy'')))),
             {entry_word
                (wordPool sampleCorpus ''easy'' ! randomIndex 0 (length (wordPool sampleCorpus ''easy'')))}))"
    by blast
  then have "getSmartWordSelection sampleCorpus [''CAT''] ''easy'' 0 0 {''ELEPHANT''} =
     (Some \<lparr>w_id = 0, w_word = ''CAT'', w_definition = ''A small domesticated feline.'',
             w_difficulty = ''easy'', w_category = ''general''\<rparr>, {''CAT''})"
    by (simp add: sample_easy randomIndex_def)
       (simp add: sampleCorpus_def wordOfEntry_def mapDifficulty_def)
  with h show ?thesis by (intro conjI)
qed

lemma toUpperCase_char_idem: "toUpperCase_char (toUpperCase_char c) = toUpperCase_char c"
  using toUpperCase_char_cases [of c] by (auto simp: toUpperCase_char_def Let_def)

lemma toUpperCase_idem: "toUpperCase (toUpperCase s) = toUpperCase s"
  by (simp add: toUpperCase_def toUpperCase_char_idem)

lemma upper_mem_filter:
  "(toUpperCase s \<in> set (filter (\<lambda>x. toUpperCase x = x) seen)) = (toUpperCase s \<in> set seen)"
  by (auto simp: toUpperCase_idem)

text \<open>
  C10: \<^verbatim>\<open>getSmartWordSelection\<close> looks the upper-cased corpus word up in the personal list
  as it is. Only the entries of the list that are in upper case can exclude a word: the
  call gives the same result when all other entries are dropped. With the built-in word
  list and the personal list \<open>[house]\<close>, the word \<open>HOUSE\<close> is selected and returned.
\<close>

theorem smart_selection_case_sensitive:
  "getSmartWordSelection db (filter (\<lambda>s. toUpperCase s = s) seenWords) difficulty r now usedWords =
     getSmartWordSelection db seenWords difficulty r now usedWords \<and>
   getSmartWordSelection getFallbackWordList [''house''] ''mixed'' 0 now {} =
     (Some \<lparr>w_id = now, w_word = ''HOUSE'', w_definition = ''A building for human habitation.'',
             w_difficulty = ''easy'', w_category = ''general''\<rparr>, {''HOUSE''})"
proof
  show "getSmartWordSelection db (filter (\<lambda>s. toUpperCase s = s) seenWords) difficulty r now usedWords =
     getSmartWordSelection db seenWords difficulty r now usedWords"
    unfolding getSmartWordSelection_def upper_mem_filter ..
  show "getSmartWordSelection getFallbackWordList [''house''] ''mixed'' 0 now {} =
     (Some \<lparr>w_id = now, w_word = ''HOUSE'', w_definition = ''A building for human habitation.'',
             w_difficulty = ''easy'', w_category = ''general''\<rparr>, {''HOUSE''})"
    by (simp add: getSmartWordSelection_def wordPool_def getFallbackWordList_def
        toUpperCase_def toUpperCase_char_def randomIndex_def wordOfEntry_def mapDifficulty_def)
qed

theorem smart_selection_case_sensitive_witness:
  "getSmartWordSelection getFallbackWordList (filter (\<lambda>s. toUpperCase s = s) [''house'', ''WATER''])
     ''mixed'' 0 0 {} =
     getSmartWordSelection getFallbackWordList [''house'', ''WATER''] ''mixed'' 0 0 {} \<and>
   getSmartWordSelection getFallbackWordList [''house''] ''mixed'' 0 0 {} =
     (Some \<lparr>w_id = 0, w_word = ''HOUSE'', w_definition = ''A building for human habitation.'',
             w_difficulty = ''easy'', w_category = ''general''\<rparr>, {''HOUSE''})"
  by (rule smart_selection_case_sensitive)

section \<open>WordService: candidates, lookup and fallback\<close>

lemma curated_nonempty_strings: "[] \<notin> set CURATED_WORDS"
  by (simp add: CURATED_WORDS_def)

lemma dynamic_nonempty_strings: "[] \<notin> set (concat (map snd DYNAMIC_WORD_POOLS))"
  by (simp add: DYNAMIC_WORD_POOLS_def)

lemma randomWords_nonempty_strings: "[] \<notin> set randomWords"
  by (simp add: randomWords_def)

lemma randomWords_nonempty: "randomWords \<noteq> []"
  by (simp add: randomWords_def)

lemma truthy_pick:
  assumes "[] \<notin> set xs" and "filter P xs \<noteq> []"
  shows "truthy (Some (filter P xs ! randomIndex r (length (filter P xs))))"
proof -
  from nth_randomIndex_filter [OF assms(2), of r]
  have "filter P xs ! randomIndex r (length (filter P xs)) \<in> set xs" by simp
  with assms(1) show ?thesis by (auto simp: truthy_def)
qed

lemma chooseWordToTry_curated:
  assumes "filter (\<lambda>word. word \<notin> U) CURATED_WORDS \<noteq> []"
  shows "chooseWordToTry r U = (getCuratedWord r U, U)"
  using assms truthy_pick [OF curated_nonempty_strings assms, of r]
  by (simp add: chooseWordToTry_def getCuratedWord_def Let_def)

lemma chooseWordToTry_dynamic:
  assumes "filter (\<lambda>word. word \<notin> U) CURATED_WORDS = []"
    and "filter (\<lambda>word. word \<notin> U) (concat (map snd DYNAMIC_WORD_POOLS)) \<noteq> []"
  shows "chooseWordToTry r U = (getDynamicWord r U, U)"
  using assms truthy_pick [OF dynamic_nonempty_strings assms(2), of r]
  by (simp add: chooseWordToTry_def getCuratedWord_def getDynamicWord_def Let_def truthy_def)

lemma chooseWordToTry_dictionary:
  assumes "filter (\<lambda>word. word \<notin> U) CURATED_WORDS = []"
    and "filter (\<lambda>word. word \<notin> U) (concat (map snd DYNAMIC_WORD_POOLS)) = []"
  shows "chooseWordToTry r U = getRandomDictionaryWord r U"
  using assms
  by (simp add: chooseWordToTry_def getCuratedWord_def getDynamicWord_def Let_def truthy_def)

lemma getRandomDictionaryWord_Some:
  "\<exists>c. c \<noteq> [] \<and> getRandomDictionaryWord r U =
      (Some c, if filter (\<lambda>word. word \<notin> U) randomWords = [] then {} else U)"
proof (cases "filter (\<lambda>word. word \<notin> U) randomWords = []")
  case True
  from nth_randomIndex_mem [OF randomWords_nonempty, of r] randomWords_nonempty_strings
  have "randomWords ! randomIndex r (length randomWords) \<noteq> []" by metis
  with True show ?thesis by (simp add: getRandomDictionaryWord_def)
next
  case False
  from nth_randomIndex_filter [OF False, of r] randomWords_nonempty_strings
  have "filter (\<lambda>word. word \<notin> U) randomWords !
          randomIndex r (length (filter (\<lambda>word. word \<notin> U) randomWords)) \<noteq> []"
    by metis
  with False show ?thesis by (simp add: getRandomDictionaryWord_def Let_def)
qed

lemma exhausted_iff:
  "(filter (\<lambda>word. word \<notin> U) CURATED_WORDS = [] \<and>
    filter (\<lambda>word. word \<notin> U) (concat (map snd DYNAMIC_WORD_POOLS)) = [] \<and>
    filter (\<lambda>word. word \<notin> U) randomWords = []) = (set allListedWords \<subseteq> U)"
  by (auto simp: allListedWords_def filter_empty_conv)

lemma chooseWordToTry_Some:
  "\<exists>c. c \<noteq> [] \<and>
     chooseWordToTry r U = (Some c, if set allListedWords \<subseteq> U then {} else U)"
proof (cases "filter (\<lambda>word. word \<notin> U) CURATED_WORDS = []")
  case False
  from truthy_pick [OF curated_nonempty_strings False, of r] False
  have "\<exists>c. c \<noteq> [] \<and> getCuratedWord r U = Some c"
    by (simp add: getCuratedWord_def Let_def truthy_def)
  moreover from False have "\<not> set allListedWords \<subseteq> U" using exhausted_iff [of U] by blast
  ultimately show ?thesis using chooseWordToTry_curated [OF False, of r] by auto
next
  case cur: True
  show ?thesis
  proof (cases "filter (\<lambda>word. word \<notin> U) (concat (map snd DYNAMIC_WORD_POOLS)) = []")
    case False
    from truthy_pick [OF dynamic_nonempty_strings False, of r] False
    have "\<exists>c. c \<noteq> [] \<and> getDynamicWord r U = Some c"
      by (simp add: getDynamicWord_def Let_def truthy_def)
    moreover from False have "\<not> set allListedWords \<subseteq> U" using exhausted_iff [of U] by blast
    ultimately show ?thesis using chooseWordToTry_dynamic [OF cur False, of r] by auto
  next
    case True
    with cur have "(filter (\<lambda>word. word \<notin> U) randomWords = []) = (set allListedWords \<subseteq> U)"
      using exhausted_iff [of U] by simp
    with getRandomDictionaryWord_Some [of r U] chooseWordToTry_dictionary [OF cur True, of r]
    show ?thesis by simp
  qed
qed

lemma getRandomWordWithDefinition_failed:
  assumes "chooseWordToTry r1 U = (Some c, st)" and "fetchDefinitionFromAPI api c = None"
  shows "getRandomWordWithDefinition api r1 r2 now U = (Some (getFallbackWord r2 now), st)"
  using assms by (simp add: getRandomWordWithDefinition_def)

lemma getRandomWordWithDefinition_found:
  assumes "chooseWordToTry r1 U = (Some c, st)" and "c \<noteq> []"
    and "fetchDefinitionFromAPI api c = Some d" and "d \<noteq> []"
  shows "getRandomWordWithDefinition api r1 r2 now U =
           (Some \<lparr>w_id = now, w_word = toUpperCase c, w_definition = d,
                   w_difficulty = categorizeWordDifficulty c, w_category = ''general''\<rparr>,
            insert c st)"
  using assms by (simp add: getRandomWordWithDefinition_def)

lemma firstReadableDefinition_band:
  "firstReadableDefinition ms = Some d \<Longrightarrow> 20 < length d \<and> length d < 200"
  by (induction ms) (auto simp: Let_def split: option.splits list.splits if_splits)

lemma firstReadableDefinition_outside:
  "list_all outsideBand ms \<Longrightarrow> firstReadableDefinition ms = None"
  by (induction ms) (auto simp: Let_def outsideBand_def split: option.splits list.splits)

lemma fetchDefinitionFromAPI_band:
  "fetchDefinitionFromAPI api w = Some d \<Longrightarrow> 20 < length d \<and> length d < 200"
  by (auto simp: fetchDefinitionFromAPI_def firstReadableDefinition_band
      split: fetch_result.splits option.splits list.splits if_splits)

lemma fetchDefinitionFromAPI_fails:
  "definitionLookupFails (api (toLowerCase w)) \<Longrightarrow> fetchDefinitionFromAPI api w = None"
  by (cases "api (toLowerCase w)")
     (auto simp: fetchDefinitionFromAPI_def firstReadableDefinition_outside
      split: option.splits list.splits if_splits)

lemma categorizeWordDifficulty_range:
  "categorizeWordDifficulty w \<in> {''easy'', ''medium'', ''hard''}"
  by (simp add: categorizeWordDifficulty_def)

lemma getFallbackWord_cases:
  "getFallbackWord r now \<in>
     {\<lparr>w_id = now, w_word = fst p, w_definition = snd p,
       w_difficulty = categorizeWordDifficulty (fst p), w_category = ''general''\<rparr> | p.
      p \<in> set fallbackWords}"
proof -
  have "fallbackWords \<noteq> []" by (simp add: fallbackWords_def)
  then have "fallbackWords ! randomIndex r (length fallbackWords) \<in> set fallbackWords"
    by (rule nth_randomIndex_mem)
  then show ?thesis by (auto simp: getFallbackWord_def Let_def)
qed

lemma getFallbackWord_member:
  "(w_word (getFallbackWord r now), w_definition (getFallbackWord r now)) \<in> set fallbackWords"
  using getFallbackWord_cases [of r now] by auto

lemma getFallbackWord_valid: "validWord (getFallbackWord r now)"
proof -
  have "\<forall>p \<in> set fallbackWords. fst p \<noteq> [] \<and> snd p \<noteq> []"
    by (simp add: fallbackWords_def)
  with getFallbackWord_member [of r now]
  have "w_word (getFallbackWord r now) \<noteq> [] \<and> w_definition (getFallbackWord r now) \<noteq> []"
    by fastforce
  moreover have "w_difficulty (getFallbackWord r now) \<in> {''easy'', ''medium'', ''hard''}"
    using categorizeWordDifficulty_range by (simp add: getFallbackWord_def Let_def)
  moreover have "w_category (getFallbackWord r now) \<noteq> []"
    by (simp add: getFallbackWord_def Let_def)
  ultimately show ?thesis by (simp add: validWord_def)
qed


lemma chooseWordToTry_unused:
  assumes "chooseWordToTry r U = (Some c, st)"
  shows "c \<notin> st"
proof (cases "filter (\<lambda>word. word \<notin> U) CURATED_WORDS = []")
  case False
  from nth_randomIndex_filter [OF False, of r] chooseWordToTry_curated [OF False, of r] assms False
  show ?thesis by (simp add: getCuratedWord_def Let_def)
next
  case cur: True
  show ?thesis
  proof (cases "filter (\<lambda>word. word \<notin> U) (concat (map snd DYNAMIC_WORD_POOLS)) = []")
    case False
    from nth_randomIndex_filter [OF False, of r] chooseWordToTry_dynamic [OF cur False, of r]
      assms False
    show ?thesis by (simp add: getDynamicWord_def Let_def)
  next
    case True
    show ?thesis
    proof (cases "filter (\<lambda>word. word \<notin> U) randomWords = []")
      case True
      with chooseWordToTry_dictionary [OF cur \<open>filter (\<lambda>word. word \<notin> U) (concat (map snd DYNAMIC_WORD_POOLS)) = []\<close>, of r]
        assms
      show ?thesis by (simp add: getRandomDictionaryWord_def)
    next
      case False
      from nth_randomIndex_filter [OF False, of r]
        chooseWordToTry_dictionary [OF cur True, of r] assms False
      show ?thesis by (simp add: getRandomDictionaryWord_def Let_def)
    qed
  qed
qed

lemma curated_first: "filter (\<lambda>word. word \<notin> {}) CURATED_WORDS \<noteq> [] \<and>
    filter (\<lambda>word. word \<notin> {}) CURATED_WORDS !
      randomIndex 0 (length (filter (\<lambda>word. word \<notin> {}) CURATED_WORDS)) = ''HOUSE''"
  by (simp add: randomIndex_def) (simp add: CURATED_WORDS_def)

lemma chooseWordToTry_first: "chooseWordToTry 0 {} = (Some ''HOUSE'', {})"
proof -
  from curated_first have ne: "filter (\<lambda>word. word \<notin> {}) CURATED_WORDS \<noteq> []" by simp
  from chooseWordToTry_curated [OF ne, of 0] curated_first ne
  show ?thesis by (simp add: getCuratedWord_def Let_def)
qed

lemma getFallbackWord_first:
  "getFallbackWord 0 0 =
     \<lparr>w_id = 0, w_word = ''MAGNIFICENT'',
      w_definition =
        ''Extremely beautiful, elaborate, or impressive; inspiring great admiration or awe.'',
      w_difficulty = ''hard'', w_category = ''general''\<rparr>"
  by code_simp

lemma apiWithoutHouse_house: "definitionLookupFails (apiWithoutHouse (toLowerCase ''HOUSE''))"
  by code_simp

lemma apiWithoutHouse_house_none: "fetchDefinitionFromAPI apiWithoutHouse ''HOUSE'' = None"
  using apiWithoutHouse_house by (rule fetchDefinitionFromAPI_fails [of apiWithoutHouse "''HOUSE''"])

lemma apiWithoutHouse_water:
  "fetchDefinitionFromAPI apiWithoutHouse ''WATER'' = Some ''A thing that the dictionary describes.''"
  by code_simp

text \<open>
  C6: \<^verbatim>\<open>getRandomWordWithDefinition\<close> returns a valid word for every answer of the
  dictionary service, every state and every draw, never \<^verbatim>\<open>null\<close>. When the lookup for
  the chosen candidate fails in one of the listed ways, the word returned is one of the
  fixed fallback words with its inline definition.
\<close>

theorem lookup_failure_returns_word:
  "(\<exists>w st. getRandomWordWithDefinition api r1 r2 now usedWords = (Some w, st) \<and> validWord w) \<and>
   (\<forall>c st. chooseWordToTry r1 usedWords = (Some c, st) \<and>
            definitionLookupFails (api (toLowerCase c)) \<longrightarrow>
      getRandomWordWithDefinition api r1 r2 now usedWords = (Some (getFallbackWord r2 now), st) \<and>
      (w_word (getFallbackWord r2 now), w_definition (getFallbackWord r2 now))
        \<in> set fallbackWords)"
proof (intro conjI allI impI)
  obtain c st where c: "c \<noteq> []" and ch: "chooseWordToTry r1 usedWords = (Some c, st)"
    using chooseWordToTry_Some [of r1 usedWords] by blast
  show "\<exists>w st. getRandomWordWithDefinition api r1 r2 now usedWords = (Some w, st) \<and> validWord w"
  proof (cases "fetchDefinitionFromAPI api c")
    case None
    with ch have "getRandomWordWithDefinition api r1 r2 now usedWords =
        (Some (getFallbackWord r2 now), st)"
      by (rule getRandomWordWithDefinition_failed)
    with getFallbackWord_valid show ?thesis by blast
  next
    case (Some d)
    then have d: "d \<noteq> []" using fetchDefinitionFromAPI_band [of api c d] by auto
    let ?w = "\<lparr>w_id = now, w_word = toUpperCase c, w_definition = d,
               w_difficulty = categorizeWordDifficulty c, w_category = ''general''\<rparr>"
    from ch c Some d have "getRandomWordWithDefinition api r1 r2 now usedWords = (Some ?w, insert c st)"
      by (rule getRandomWordWithDefinition_found)
    moreover from c d have "validWord ?w"
      using categorizeWordDifficulty_range [of c] by (simp add: validWord_def toUpperCase_def)
    ultimately show ?thesis by blast
  qed
next
  fix c st
  assume "chooseWordToTry r1 usedWords = (Some c, st) \<and> definitionLookupFails (api (toLowerCase c))"
  then have ch: "chooseWordToTry r1 usedWords = (Some c, st)"
    and "fetchDefinitionFromAPI api c = None"
    by (simp_all add: fetchDefinitionFromAPI_fails)
  then show "getRandomWordWithDefinition api r1 r2 now usedWords = (Some (getFallbackWord r2 now), st)"
    by (rule getRandomWordWithDefinition_failed)
next
  fix c st
  show "(w_word (getFallbackWord r2 now), w_definition (getFallbackWord r2 now)) \<in> set fallbackWords"
    by (rule getFallbackWord_member)
qed

theorem lookup_failure_returns_word_witness:
  "chooseWordToTry 0 {} = (Some ''HOUSE'', {}) \<and>
   definitionLookupFails (apiWithoutHouse (toLowerCase ''HOUSE'')) \<and>
   getRandomWordWithDefinition apiWithoutHouse 0 0 0 {} = (Some (getFallbackWord 0 0), {}) \<and>
   (w_word (getFallbackWord 0 0), w_definition (getFallbackWord 0 0)) \<in> set fallbackWords"
  using lookup_failure_returns_word [of apiWithoutHouse 0 0 0 "{}"]
    chooseWordToTry_first apiWithoutHouse_house by blast

text \<open>
  C3, as the code has it: the curated list, the dynamic pools and the dictionary words
  are tried in this order to choose one candidate, a later source only when the earlier
  ones have no unused word. When the lookup of that candidate fails, the call returns a
  fixed fallback word at once, whatever the dictionary service would answer for any other
  word: no second candidate is looked up.
\<close>

theorem candidate_chain_single_lookup:
  "chooseWordToTry r1 usedWords =
     (if filter (\<lambda>word. word \<notin> usedWords) CURATED_WORDS \<noteq> []
      then (getCuratedWord r1 usedWords, usedWords)
      else if filter (\<lambda>word. word \<notin> usedWords) (concat (map snd DYNAMIC_WORD_POOLS)) \<noteq> []
      then (getDynamicWord r1 usedWords, usedWords)
      else getRandomDictionaryWord r1 usedWords) \<and>
   (\<forall>c st. chooseWordToTry r1 usedWords = (Some c, st) \<and> fetchDefinitionFromAPI api c = None \<longrightarrow>
      getRandomWordWithDefinition api r1 r2 now usedWords = (Some (getFallbackWord r2 now), st))"
  using chooseWordToTry_curated [of usedWords r1] chooseWordToTry_dynamic [of usedWords r1]
    chooseWordToTry_dictionary [of usedWords r1]
    getRandomWordWithDefinition_failed [of r1 usedWords _ _ api r2 now]
  by auto

theorem candidate_chain_single_lookup_witness:
  "chooseWordToTry 0 {} = (Some ''HOUSE'', {}) \<and>
   fetchDefinitionFromAPI apiWithoutHouse ''HOUSE'' = None \<and>
   getRandomWordWithDefinition apiWithoutHouse 0 0 0 {} = (Some (getFallbackWord 0 0), {})"
  using candidate_chain_single_lookup [of 0 "{}" apiWithoutHouse 0 0]
    chooseWordToTry_first apiWithoutHouse_house_none by blast

text \<open>
  C3, as the claim states it, fails: the service has no definition for \<open>house\<close> and a
  usable one for every other word, such as \<open>WATER\<close>. The candidate is \<open>HOUSE\<close>; the call
  returns the fallback word \<open>MAGNIFICENT\<close> with its inline definition and tries no
  other candidate.
\<close>

theorem candidate_chain_counterexample:
  "getRandomWordWithDefinition apiWithoutHouse 0 0 0 {} =
     (Some \<lparr>w_id = 0, w_word = ''MAGNIFICENT'',
             w_definition =
               ''Extremely beautiful, elaborate, or impressive; inspiring great admiration or awe.'',
             w_difficulty = ''hard'', w_category = ''general''\<rparr>, {}) \<and>
   fetchDefinitionFromAPI apiWithoutHouse ''WATER'' = Some ''A thing that the dictionary describes.''"
  using getRandomWordWithDefinition_failed [OF chooseWordToTry_first
      apiWithoutHouse_house_none, of 0 0]
    getFallbackWord_first apiWithoutHouse_water
  by simp

lemma allListedWords_exhausted:
  "chooseWordToTry 0 (set allListedWords) = (Some ''ANCIENT'', {})"
proof -
  have e: "filter (\<lambda>word. word \<notin> set allListedWords) CURATED_WORDS = [] \<and>
    filter (\<lambda>word. word \<notin> set allListedWords) (concat (map snd DYNAMIC_WORD_POOLS)) = [] \<and>
    filter (\<lambda>word. word \<notin> set allListedWords) randomWords = []"
    using exhausted_iff [of "set allListedWords"] by simp
  then have "chooseWordToTry 0 (set allListedWords) = getRandomDictionaryWord 0 (set allListedWords)"
    by (simp add: chooseWordToTry_dictionary)
  also from e have "\<dots> = (Some (randomWords ! randomIndex 0 (length randomWords)), {})"
    by (simp add: getRandomDictionaryWord_def)
  also have "randomWords ! randomIndex 0 (length randomWords) = ''ANCIENT''"
    by (simp add: randomIndex_def) (simp add: randomWords_def)
  finally show ?thesis .
qed

lemma apiDown_none: "fetchDefinitionFromAPI apiDown w = None"
  by (simp add: fetchDefinitionFromAPI_def apiDown_def)

text \<open>
  C9, as the code has it: a call whose lookup fails adds neither the failed candidate nor
  the fallback word to \<^verbatim>\<open>usedWords\<close>. The set is unchanged, unless every curated, dynamic
  and dictionary word was already in it: then \<^verbatim>\<open>getRandomDictionaryWord\<close> has cleared it
  before the lookup. While the lookups fail, the next call with the same fallback draw
  returns the same fallback word.
\<close>

theorem failed_lookup_usedWords:
  "(\<forall>c st. chooseWordToTry r1 usedWords = (Some c, st) \<and> fetchDefinitionFromAPI api c = None \<longrightarrow>
      getRandomWordWithDefinition api r1 r2 now usedWords =
        (Some (getFallbackWord r2 now),
         if set allListedWords \<subseteq> usedWords then {} else usedWords) \<and>
      c \<notin> snd (getRandomWordWithDefinition api r1 r2 now usedWords)) \<and>
   ((\<forall>w. fetchDefinitionFromAPI api w = None) \<longrightarrow>
      fst (getRandomWordWithDefinition api r1' r2 now'
             (snd (getRandomWordWithDefinition api r1 r2 now usedWords))) =
        Some (getFallbackWord r2 now') \<and>
      w_word (getFallbackWord r2 now') = w_word (getFallbackWord r2 now))"
proof (intro conjI allI impI)
  fix c st
  assume a: "chooseWordToTry r1 usedWords = (Some c, st) \<and> fetchDefinitionFromAPI api c = None"
  then have ch: "chooseWordToTry r1 usedWords = (Some c, st)"
    and f: "fetchDefinitionFromAPI api c = None" by simp_all
  from ch chooseWordToTry_Some [of r1 usedWords]
  have st: "st = (if set allListedWords \<subseteq> usedWords then {} else usedWords)" by auto
  from ch f have res: "getRandomWordWithDefinition api r1 r2 now usedWords =
      (Some (getFallbackWord r2 now), st)"
    by (rule getRandomWordWithDefinition_failed)
  with st show "getRandomWordWithDefinition api r1 r2 now usedWords =
        (Some (getFallbackWord r2 now),
         if set allListedWords \<subseteq> usedWords then {} else usedWords)"
    by simp
  from chooseWordToTry_unused [OF ch] res
  show "c \<notin> snd (getRandomWordWithDefinition api r1 r2 now usedWords)" by simp
next
  assume down: "\<forall>w. fetchDefinitionFromAPI api w = None"
  let ?st = "snd (getRandomWordWithDefinition api r1 r2 now usedWords)"
  obtain c' st' where ch': "chooseWordToTry r1' ?st = (Some c', st')"
    using chooseWordToTry_Some [of r1' ?st] by blast
  moreover from down have "fetchDefinitionFromAPI api c' = None" by simp
  ultimately have "getRandomWordWithDefinition api r1' r2 now' ?st =
      (Some (getFallbackWord r2 now'), st')"
    by (rule getRandomWordWithDefinition_failed)
  then show "fst (getRandomWordWithDefinition api r1' r2 now' ?st) = Some (getFallbackWord r2 now')"
    by simp
next
  show "w_word (getFallbackWord r2 now') = w_word (getFallbackWord r2 now)"
    by (simp add: getFallbackWord_def Let_def)
qed

theorem failed_lookup_usedWords_witness:
  "chooseWordToTry 0 {} = (Some ''HOUSE'', {}) \<and>
   fetchDefinitionFromAPI apiDown ''HOUSE'' = None \<and>
   getRandomWordWithDefinition apiDown 0 0 0 {} = (Some (getFallbackWord 0 0), {}) \<and>
   ''HOUSE'' \<notin> snd (getRandomWordWithDefinition apiDown 0 0 0 {}) \<and>
   (\<forall>w. fetchDefinitionFromAPI apiDown w = None) \<and>
   fst (getRandomWordWithDefinition apiDown 1 0 1 (snd (getRandomWordWithDefinition apiDown 0 0 0 {}))) =
     Some (getFallbackWord 0 1) \<and>
   w_word (getFallbackWord 0 1) = w_word (getFallbackWord 0 0)"
proof -
  note T = failed_lookup_usedWords [of 0 "{}" apiDown 0 0 1 1]
  from T chooseWordToTry_first apiDown_none
  have "getRandomWordWithDefinition apiDown 0 0 0 {} =
          (Some (getFallbackWord 0 0), if set allListedWords \<subseteq> {} then {} else {}) \<and>
        ''HOUSE'' \<notin> snd (getRandomWordWithDefinition apiDown 0 0 0 {})"
    by blast
  moreover from T apiDown_none
  have "fst (getRandomWordWithDefinition apiDown 1 0 1
               (snd (getRandomWordWithDefinition apiDown 0 0 0 {}))) =
          Some (getFallbackWord 0 1) \<and>
        w_word (getFallbackWord 0 1) = w_word (getFallbackWord 0 0)"
    by blast
  ultimately show ?thesis using chooseWordToTry_first apiDown_none by simp
qed

text \<open>
  C9, as the claim states it, fails: with every listed word already used and the
  dictionary service unreachable, the call clears \<^verbatim>\<open>usedWords\<close> although the lookup of its
  candidate fails.
\<close>

theorem failed_lookup_usedWords_counterexample:
  "getRandomWordWithDefinition apiDown 0 0 0 (set allListedWords) =
     (Some (getFallbackWord 0 0), {}) \<and>
   fetchDefinitionFromAPI apiDown ''ANCIENT'' = None \<and>
   set allListedWords \<noteq> {}"
proof -
  have "getRandomWordWithDefinition apiDown 0 0 0 (set allListedWords) =
     (Some (getFallbackWord 0 0), {})"
    using allListedWords_exhausted apiDown_none by (rule getRandomWordWithDefinition_failed)
  moreover have "set allListedWords \<noteq> {}"
    by (simp add: allListedWords_def randomWords_def)
  ultimately show ?thesis by (simp add: apiDown_none)
qed

end
